theory Spec2Isabelle
  imports Complex_Main "HOL-Library.Char_ord" "HOL-Library.List_Lexorder"
begin

section \<open>Calendar dates\<close>

text \<open>
  The start and end of a timesheet are Python \<^verbatim>\<open>datetime.date\<close> values: a year, a
  month and a day. The functions below follow the proleptic Gregorian arithmetic of the
  standard library (\<^verbatim>\<open>_is_leap\<close>, \<^verbatim>\<open>_days_before_year\<close>, \<^verbatim>\<open>_days_in_month\<close>,
  \<^verbatim>\<open>_days_before_month\<close>, \<^verbatim>\<open>_ymd2ord\<close>, \<^verbatim>\<open>_ord2ymd\<close>, \<^verbatim>\<open>isocalendar\<close>), which
  pandas agrees with on every day it can represent. Day number 1 is 0001-01-01.
\<close>

record date =
  year :: int
  month :: int
  day :: int

definition is_leap :: "int \<Rightarrow> bool" where
  "is_leap y = (y mod 4 = 0 \<and> (y mod 100 \<noteq> 0 \<or> y mod 400 = 0))"

definition days_before_year :: "int \<Rightarrow> int" where
  "days_before_year y = (let p = y - 1 in p * 365 + p div 4 - p div 100 + p div 400)"

definition DAYS_IN_MONTH :: "int list" where
  "DAYS_IN_MONTH = [-1, 31, 28, 31, 30, 31, 30, 31, 31, 30, 31, 30, 31]"

definition DAYS_BEFORE_MONTH :: "int list" where
  "DAYS_BEFORE_MONTH = [-1, 0, 31, 59, 90, 120, 151, 181, 212, 243, 273, 304, 334]"

definition days_in_month :: "int \<Rightarrow> int \<Rightarrow> int" where
  "days_in_month y m = (if m = 2 \<and> is_leap y then 29 else DAYS_IN_MONTH ! nat m)"

definition days_before_month :: "int \<Rightarrow> int \<Rightarrow> int" where
  "days_before_month y m =
     DAYS_BEFORE_MONTH ! nat m + (if m > 2 \<and> is_leap y then 1 else 0)"

definition ymd2ord :: "int \<Rightarrow> int \<Rightarrow> int \<Rightarrow> int" where
  "ymd2ord y m d = days_before_year y + days_before_month y m + d"

definition valid_date :: "date \<Rightarrow> bool" where
  "valid_date d =
     (1 \<le> year d \<and> year d \<le> 9999 \<and> 1 \<le> month d \<and> month d \<le> 12 \<and>
      1 \<le> day d \<and> day d \<le> days_in_month (year d) (month d))"

definition toordinal :: "date \<Rightarrow> int" where
  "toordinal d = ymd2ord (year d) (month d) (day d)"

text \<open>Python compares two dates as the tuples (year, month, day).\<close>

definition date_lt :: "date \<Rightarrow> date \<Rightarrow> bool" where
  "date_lt a b =
     (year a < year b \<or>
      (year a = year b \<and> (month a < month b \<or> (month a = month b \<and> day a < day b))))"

definition date_le :: "date \<Rightarrow> date \<Rightarrow> bool" where
  "date_le a b = (date_lt a b \<or> (year a = year b \<and> month a = month b \<and> day a = day b))"

text \<open>\<^verbatim>\<open>(b - a).days\<close>: the difference of two dates is the difference of their day numbers.\<close>

definition days_between :: "date \<Rightarrow> date \<Rightarrow> int" where
  "days_between a b = toordinal b - toordinal a"

definition ord2ymd :: "int \<Rightarrow> int \<times> int \<times> int" where
  "ord2ymd n0 =
    (let n = n0 - 1;
         n400 = n div 146097; n = n mod 146097;
         y = n400 * 400 + 1;
         n100 = n div 36524; n = n mod 36524;
         n4 = n div 1461; n = n mod 1461;
         n1 = n div 365; n = n mod 365;
         y = y + n100 * 100 + n4 * 4 + n1
     in if n1 = 4 \<or> n100 = 4 then (y - 1, 12, 31)
        else
          let leapyear = (n1 = 3 \<and> (n4 \<noteq> 24 \<or> n100 = 3));
              m = (n + 50) div 32;
              preceding = DAYS_BEFORE_MONTH ! nat m + (if m > 2 \<and> leapyear then 1 else 0)
          in if preceding > n
             then (let m' = m - 1;
                       preceding' = preceding -
                         (DAYS_IN_MONTH ! nat m' + (if m' = 2 \<and> leapyear then 1 else 0))
                   in (y, m', n - preceding' + 1))
             else (y, m, n - preceding + 1))"

text \<open>Monday is weekday 0.\<close>

definition weekday :: "int \<Rightarrow> int" where
  "weekday n = (n + 6) mod 7"

definition day_name :: "int \<Rightarrow> string" where
  "day_name n =
     [''Monday'', ''Tuesday'', ''Wednesday'', ''Thursday'', ''Friday'', ''Saturday'',
      ''Sunday''] ! nat (weekday n)"

definition month_name :: "int \<Rightarrow> string" where
  "month_name n =
     (case ord2ymd n of (y, m, d) \<Rightarrow>
        [''January'', ''February'', ''March'', ''April'', ''May'', ''June'', ''July'',
         ''August'', ''September'', ''October'', ''November'', ''December''] ! nat (m - 1))"

definition isoweek1monday :: "int \<Rightarrow> int" where
  "isoweek1monday y =
     (let firstday = ymd2ord y 1 1;
          firstweekday = (firstday + 6) mod 7;
          week1monday = firstday - firstweekday
      in if firstweekday > 3 then week1monday + 7 else week1monday)"

text \<open>The ISO-8601 year and week of a day number.\<close>

definition isocalendar :: "int \<Rightarrow> int \<times> int" where
  "isocalendar today =
     (case ord2ymd today of (y, m, d) \<Rightarrow>
        let week = (today - isoweek1monday y) div 7
        in if week < 0 then (y - 1, (today - isoweek1monday (y - 1)) div 7 + 1)
           else if week \<ge> 52 \<and> today \<ge> isoweek1monday (y + 1) then (y + 1, 1)
           else (y, week + 1))"

definition iso_week :: "int \<Rightarrow> int" where
  "iso_week n = snd (isocalendar n)"

section \<open>The timesheet table\<close>

text \<open>
  A float64 entry of a column is a number or NaN (\<open>None\<close>). Numbers are modelled as exact
  rationals: the rounding of binary floating point is outside this model. A text entry
  is a string or missing (\<open>None\<close>). The table is the list of its rows in index order;
  its index is 0, 1, 2, ... as \<^verbatim>\<open>pd.DataFrame\<close> assigns it. A \<^verbatim>\<open>Date\<close> entry is a
  timestamp at midnight, kept as its day number.
\<close>

type_synonym cell = "rat option"

record row =
  Date :: int
  Day :: string
  Hours_Worked :: cell
  Hourly_Rate :: cell
  Daily_Total :: cell
  Tasks_Completed :: "string option"
  Week :: int
  Month :: string
  Employee_Name :: string

type_synonym dataframe = "row list"

text \<open>\<^verbatim>\<open>pd.date_range(start, end, freq="D")\<close>: every day from start to end, both included.\<close>

definition date_range :: "date \<Rightarrow> date \<Rightarrow> int list" where
  "date_range start_date end_date = [toordinal start_date .. toordinal end_date]"

definition init_timesheet :: "date \<Rightarrow> date \<Rightarrow> string \<Rightarrow> dataframe" where
  "init_timesheet start_date end_date employee_name =
     map (\<lambda>d. \<lparr>Date = d, Day = day_name d, Hours_Worked = Some 0, Hourly_Rate = Some 0,
                Daily_Total = Some 0, Tasks_Completed = Some [], Week = iso_week d,
                Month = month_name d, Employee_Name = employee_name\<rparr>)
         (date_range start_date end_date)"

text \<open>The product of two float columns, entry by entry; NaN where either entry is NaN.\<close>

definition cell_mul :: "cell \<Rightarrow> cell \<Rightarrow> cell" where
  "cell_mul a b = (case a of None \<Rightarrow> None | Some x \<Rightarrow> (case b of None \<Rightarrow> None | Some y \<Rightarrow> Some (x * y)))"

definition calculate_totals :: "dataframe \<Rightarrow> dataframe" where
  "calculate_totals df =
     map (\<lambda>r. r\<lparr>Daily_Total := cell_mul (Hours_Worked r) (Hourly_Rate r)\<rparr>) df"

section \<open>Merging the editor's table and recomputing\<close>

text \<open>
  The data editor returns the five editable columns under the index labels of the rows
  it kept (with a dynamic row count a label can be missing, or new). The program reads
  three columns of it. \<^verbatim>\<open>df.loc[:, c] = edited_df[c]\<close> aligns on the index: the row
  with label \<open>i\<close> takes the entry the editor holds under \<open>i\<close>, and a missing entry (NaN)
  where the editor holds none; labels the table does not have are ignored.
\<close>

record edited_row =
  ed_Hours_Worked :: cell
  ed_Hourly_Rate :: cell
  ed_Tasks_Completed :: "string option"

type_synonym edited_df = "(nat \<times> edited_row) list"

definition assign_edits :: "dataframe \<Rightarrow> edited_df \<Rightarrow> dataframe" where
  "assign_edits df edited =
     map (\<lambda>(i, r).
            case map_of edited i of
              None \<Rightarrow> r\<lparr>Hours_Worked := None, Hourly_Rate := None, Tasks_Completed := None\<rparr>
            | Some e \<Rightarrow> r\<lparr>Hours_Worked := ed_Hours_Worked e, Hourly_Rate := ed_Hourly_Rate e,
                          Tasks_Completed := ed_Tasks_Completed e\<rparr>)
         (enumerate 0 df)"

text \<open>Lines 108 to 115 of \<^verbatim>\<open>main\<close>: the edited values are written, then the totals.\<close>

definition recompute :: "dataframe \<Rightarrow> edited_df \<Rightarrow> dataframe" where
  "recompute df edited = calculate_totals (assign_edits df edited)"

section \<open>Metrics and summaries\<close>

text \<open>A column's \<^verbatim>\<open>sum()\<close> skips NaN, and is 0 for a column with no number.\<close>

definition col_sum :: "cell list \<Rightarrow> rat" where
  "col_sum cs = sum_list (map (\<lambda>c. case c of None \<Rightarrow> 0 | Some x \<Rightarrow> x) cs)"

text \<open>A column's \<^verbatim>\<open>mean()\<close> is over its numbers, and NaN when it has none.\<close>

definition col_mean :: "cell list \<Rightarrow> cell" where
  "col_mean cs =
     (let xs = filter (\<lambda>c. c \<noteq> None) cs
      in if xs = [] then None else Some (col_sum xs / of_nat (length xs)))"

text \<open>The mask \<^verbatim>\<open>column > 0\<close> is false at NaN.\<close>

definition gt0 :: "cell \<Rightarrow> bool" where
  "gt0 c = (case c of None \<Rightarrow> False | Some x \<Rightarrow> 0 < x)"

definition total_hours :: "dataframe \<Rightarrow> rat" where
  "total_hours df = col_sum (map Hours_Worked df)"

definition total_earnings :: "dataframe \<Rightarrow> rat" where
  "total_earnings df = col_sum (map Daily_Total df)"

definition avg_hourly_rate :: "dataframe \<Rightarrow> cell" where
  "avg_hourly_rate df =
     (if length (filter (\<lambda>r. gt0 (Hourly_Rate r)) df) > 0
      then col_mean (map Hourly_Rate (filter (\<lambda>r. gt0 (Hourly_Rate r)) df))
      else Some 0)"

definition days_worked :: "dataframe \<Rightarrow> nat" where
  "days_worked df = length (filter (\<lambda>r. gt0 (Hours_Worked r)) df)"

text \<open>
  \<^verbatim>\<open>df.groupby(key).agg({"Hours Worked": "sum", "Daily Total": "sum"})\<close>: one entry for
  each key that occurs, in ascending order of the keys, with the sums of the two
  columns over the rows of that key.
\<close>

definition groupby_sum :: "(row \<Rightarrow> 'k::linorder) \<Rightarrow> dataframe \<Rightarrow> ('k \<times> rat \<times> rat) list" where
  "groupby_sum key df =
     map (\<lambda>k. (k, col_sum (map Hours_Worked (filter (\<lambda>r. key r = k) df)),
                   col_sum (map Daily_Total (filter (\<lambda>r. key r = k) df))))
         (sort (remdups (map key df)))"

text \<open>
  \<^verbatim>\<open>.round(2)\<close> rounds to the nearest multiple of 1/100, a tie to the even one
  (\<open>rint\<close> is the nearest integer, a tie to the even one).
\<close>

definition rint :: "rat \<Rightarrow> int" where
  "rint x =
     (let f = \<lfloor>x\<rfloor>; d = x - of_int f
      in if d < 1 / 2 then f else if 1 / 2 < d then f + 1 else if even f then f else f + 1)"

definition round2 :: "rat \<Rightarrow> rat" where
  "round2 x = of_int (rint (x * 100)) / 100"

definition round_summary :: "('k \<times> rat \<times> rat) list \<Rightarrow> ('k \<times> rat \<times> rat) list" where
  "round_summary s = map (\<lambda>(k, h, e). (k, round2 h, round2 e)) s"

definition weekly_summary :: "dataframe \<Rightarrow> (int \<times> rat \<times> rat) list" where
  "weekly_summary df = round_summary (groupby_sum Week df)"

definition monthly_summary :: "dataframe \<Rightarrow> (string \<times> rat \<times> rat) list" where
  "monthly_summary df = round_summary (groupby_sum Month df)"

text \<open>
  The metrics in the words of the specification, over columns of numbers: the average
  hourly rate is the mean of the rates above 0, and 0 when there is none; the days
  worked are the number of rows with hours above 0.
\<close>

definition spec_average_rate :: "rat list \<Rightarrow> rat" where
  "spec_average_rate rates =
     (let pos = filter (\<lambda>x. 0 < x) rates
      in if pos = [] then 0 else sum_list pos / of_nat (length pos))"

definition spec_days_worked :: "rat list \<Rightarrow> nat" where
  "spec_days_worked hours = length (filter (\<lambda>h. 0 < h) hours)"

text \<open>
  The order of first occurrence, in the words of the specification: the distinct keys
  of a column, each at the place where it occurs first.
\<close>

fun first_occurrences :: "'a list \<Rightarrow> 'a list" where
  "first_occurrences [] = []"
| "first_occurrences (x # xs) = x # filter (\<lambda>y. y \<noteq> x) (first_occurrences xs)"

section \<open>Exporting to CSV\<close>





















section \<open>Calendar arithmetic\<close>

text \<open>
  The day number of a valid date grows strictly with the date in the order of Python's
  date comparison, so comparing two dates and comparing their day numbers agree.
\<close>

lemma div_step:
  fixes p k :: int
  assumes k: "0 < k"
  shows "p div k = (p - 1) div k + (if p mod k = 0 then 1 else 0)"
proof -
  define q where "q = (p - 1) div k"
  define r where "r = (p - 1) mod k"
  have r: "0 \<le> r" "r < k" using k by (simp_all add: r_def)
  have p: "p = k * q + (r + 1)" by (simp add: q_def r_def)
  show ?thesis
  proof (cases "r + 1 = k")
    case True
    then have "p = k * (q + 1) + 0" using p by (simp add: algebra_simps)
    with k have "p div k = q + 1" "p mod k = 0"
      by (simp_all add: int_div_pos_eq int_mod_pos_eq)
    then show ?thesis by (simp add: q_def)
  next
    case False
    with r have lt: "r + 1 < k" "0 \<le> r + 1" by simp_all
    from p lt have "p div k = q" "p mod k = r + 1"
      by (simp_all add: int_div_pos_eq int_mod_pos_eq)
    with lt r show ?thesis by (simp add: q_def)
  qed
qed



lemma mod400_100:
  assumes "(p::int) mod 400 = 0" shows "p mod 100 = 0"
proof -
  have "400 dvd p" using assms by (simp add: dvd_eq_mod_eq_0)
  moreover have "(100::int) dvd 400" by simp
  ultimately have "100 dvd p" by (rule dvd_trans [rotated])
  then show ?thesis by (simp add: dvd_eq_mod_eq_0)
qed


lemma mod100_4:
  assumes "(p::int) mod 100 = 0" shows "p mod 4 = 0"
proof -
  have "100 dvd p" using assms by (simp add: dvd_eq_mod_eq_0)
  moreover have "(4::int) dvd 100" by simp
  ultimately have "4 dvd p" by (rule dvd_trans [rotated])
  then show ?thesis by (simp add: dvd_eq_mod_eq_0)
qed

lemma days_before_year_step:
  "days_before_year (y + 1) = days_before_year y + (if is_leap y then 366 else 365)"
proof -
  define A where "A = (y - 1) div 4"
  define B where "B = (y - 1) div 100"
  define C where "C = (y - 1) div 400"
  define A' where "A' = y div 4"
  define B' where "B' = y div 100"
  define C' where "C' = y div 400"
  have a: "A' = A + (if y mod 4 = 0 then 1 else 0)"
    unfolding A_def A'_def by (rule div_step) simp
  have b: "B' = B + (if y mod 100 = 0 then 1 else 0)"
    unfolding B_def B'_def by (rule div_step) simp
  have c: "C' = C + (if y mod 400 = 0 then 1 else 0)"
    unfolding C_def C'_def by (rule div_step) simp
  have d: "days_before_year (y + 1) = y * 365 + A' - B' + C'"
    unfolding days_before_year_def Let_def A'_def B'_def C'_def by simp
  have e: "days_before_year y = (y - 1) * 365 + A - B + C"
    unfolding days_before_year_def Let_def A_def B_def C_def by simp
  show ?thesis
  proof (cases "y mod 4 = 0")
    case False
    with mod100_4 [of y] have "y mod 100 \<noteq> 0" by auto
    moreover with mod400_100 [of y] have "y mod 400 \<noteq> 0" by auto
    ultimately show ?thesis using False a b c d e by (simp add: is_leap_def)
  next
    case True
    show ?thesis
    proof (cases "y mod 100 = 0")
      case False
      with mod400_100 [of y] have "y mod 400 \<noteq> 0" by auto
      with True False a b c d e show ?thesis by (simp add: is_leap_def)
    next
      case h: True
      show ?thesis
      proof (cases "y mod 400 = 0")
        case True
        with h \<open>y mod 4 = 0\<close> a b c d e show ?thesis by (simp add: is_leap_def)
      next
        case False
        with h \<open>y mod 4 = 0\<close> a b c d e show ?thesis by (simp add: is_leap_def)
      qed
    qed
  qed
qed


lemma days_before_year_next: "days_before_year y + 365 \<le> days_before_year (y + 1)"
  by (simp add: days_before_year_step)

lemma days_before_year_mono:
  assumes "y1 \<le> y2" shows "days_before_year y1 \<le> days_before_year y2"
  using assms
proof (induction y2 rule: int_ge_induct)
  case base
  show ?case by simp
next
  case (step i)
  with days_before_year_next [of i] show ?case by simp
qed

lemma month_cases:
  "1 \<le> m \<Longrightarrow> m \<le> 12 \<Longrightarrow>
   m = 1 \<or> m = 2 \<or> m = 3 \<or> m = 4 \<or> m = 5 \<or> m = 6 \<or> m = 7 \<or> m = 8 \<or> m = 9 \<or> m = 10 \<or>
   m = 11 \<or> m = (12::int)"
  by arith

lemma days_before_month_step:
  assumes "1 \<le> m" "m \<le> 11"
  shows "days_before_month y (m + 1) = days_before_month y m + days_in_month y m"
proof -
  from assms have "m = 1 \<or> m = 2 \<or> m = 3 \<or> m = 4 \<or> m = 5 \<or> m = 6 \<or> m = 7 \<or> m = 8 \<or> m = 9 \<or>
    m = 10 \<or> m = 11" by arith
  then show ?thesis
    by (elim disjE)
       (simp_all add: days_before_month_def days_in_month_def DAYS_BEFORE_MONTH_def
          DAYS_IN_MONTH_def)
qed

lemma days_in_month_lower: "1 \<le> m \<Longrightarrow> m \<le> 12 \<Longrightarrow> 28 \<le> days_in_month y m"
  by (drule (1) month_cases, elim disjE)
     (simp_all add: days_in_month_def DAYS_IN_MONTH_def)

lemma days_before_month_last:
  "days_before_month y 12 + days_in_month y 12 = (if is_leap y then 366 else 365)"
  by (simp add: days_before_month_def days_in_month_def DAYS_BEFORE_MONTH_def DAYS_IN_MONTH_def)

lemma days_before_month_first: "days_before_month y 1 = 0"
  by (simp add: days_before_month_def DAYS_BEFORE_MONTH_def)


lemma month_end_mono:
  assumes "1 \<le> m1" "m1 < m2" "m2 \<le> 12"
  shows "days_before_month y m1 + days_in_month y m1 \<le> days_before_month y m2"
proof -
  have "m1 + 1 \<le> m2" using assms by simp
  then have "m2 \<le> 12 \<longrightarrow> days_before_month y m1 + days_in_month y m1 \<le> days_before_month y m2"
  proof (induction m2 rule: int_ge_induct)
    case base
    show ?case using assms(1) by (simp add: days_before_month_step)
  next
    case (step i)
    show ?case
    proof
      assume i: "i + 1 \<le> 12"
      with step assms(1) have "1 \<le> i" "i \<le> 11" "i \<le> 12" by simp_all
      with step days_before_month_step [of i y] days_in_month_lower [of i y]
      show "days_before_month y m1 + days_in_month y m1 \<le> days_before_month y (i + 1)"
        by simp
    qed
  qed
  with assms show ?thesis by simp
qed

lemma month_end_le_year:
  assumes "1 \<le> m" "m \<le> 12"
  shows "days_before_month y m + days_in_month y m \<le> (if is_leap y then 366 else 365)"
proof (cases "m = 12")
  case True
  then show ?thesis using days_before_month_last [of y] by simp
next
  case False
  with assms have "m < 12" by simp
  with assms month_end_mono [of m 12 y] days_before_month_last [of y]
    days_in_month_lower [of 12 y]
  show ?thesis by (simp split: if_splits)
qed

lemma days_before_month_nonneg:
  assumes "1 \<le> m" "m \<le> 12" shows "0 \<le> days_before_month y m"
proof (cases "m = 1")
  case True
  then show ?thesis by (simp add: days_before_month_first)
next
  case False
  with assms have "1 < m" by simp
  with assms month_end_mono [of 1 m y] days_before_month_first [of y]
    days_in_month_lower [of 1 y]
  show ?thesis by simp
qed

lemma toordinal_bounds:
  assumes "valid_date a"
  shows "days_before_year (year a) < toordinal a"
    and "toordinal a \<le> days_before_year (year a + 1)"
proof -
  from assms have m: "1 \<le> month a" "month a \<le> 12"
    and d: "1 \<le> day a" "day a \<le> days_in_month (year a) (month a)"
    by (simp_all add: valid_date_def)
  from m d days_before_month_nonneg [of "month a" "year a"]
  show "days_before_year (year a) < toordinal a"
    by (simp add: toordinal_def ymd2ord_def)
  from m d month_end_le_year [of "month a" "year a"]
  show "toordinal a \<le> days_before_year (year a + 1)"
    by (simp add: toordinal_def ymd2ord_def days_before_year_step split: if_splits)
qed

lemma toordinal_strict_mono:
  assumes a: "valid_date a" and b: "valid_date b" and lt: "date_lt a b"
  shows "toordinal a < toordinal b"
proof -
  from a have ma: "1 \<le> month a" "month a \<le> 12"
    and da: "1 \<le> day a" "day a \<le> days_in_month (year a) (month a)"
    by (simp_all add: valid_date_def)
  from b have mb: "1 \<le> month b" "month b \<le> 12"
    and db: "1 \<le> day b" "day b \<le> days_in_month (year b) (month b)"
    by (simp_all add: valid_date_def)
  from lt consider
      (y) "year a < year b"
    | (m) "year a = year b" "month a < month b"
    | (d) "year a = year b" "month a = month b" "day a < day b"
    by (auto simp: date_lt_def)
  then show ?thesis
  proof cases
    case y
    then have "days_before_year (year a + 1) \<le> days_before_year (year b)"
      by (intro days_before_year_mono) simp
    with toordinal_bounds(2) [OF a] toordinal_bounds(1) [OF b] show ?thesis
      by simp
  next
    case m
    with ma mb month_end_mono [of "month a" "month b" "year a"] da db show ?thesis
      by (simp add: toordinal_def ymd2ord_def)
  next
    case d
    then show ?thesis by (simp add: toordinal_def ymd2ord_def)
  qed
qed

lemma date_le_iff_toordinal:
  assumes a: "valid_date a" and b: "valid_date b"
  shows "date_le a b \<longleftrightarrow> toordinal a \<le> toordinal b"
proof
  assume "date_le a b"
  then consider "date_lt a b" | "year a = year b \<and> month a = month b \<and> day a = day b"
    by (auto simp: date_le_def)
  then show "toordinal a \<le> toordinal b"
  proof cases
    case 1
    with toordinal_strict_mono [OF a b] show ?thesis by simp
  next
    case 2
    then show ?thesis by (simp add: toordinal_def)
  qed
next
  assume le: "toordinal a \<le> toordinal b"
  show "date_le a b"
  proof (rule ccontr)
    assume "\<not> date_le a b"
    then have "date_lt b a" by (auto simp: date_le_def date_lt_def)
    with toordinal_strict_mono [OF b a] le show False by simp
  qed
qed

lemma date_lt_iff_toordinal:
  assumes a: "valid_date a" and b: "valid_date b"
  shows "date_lt a b \<longleftrightarrow> toordinal a < toordinal b"
proof -
  have "date_lt a b \<longleftrightarrow> \<not> date_le b a"
    by (auto simp: date_le_def date_lt_def)
  with date_le_iff_toordinal [OF b a] show ?thesis by auto
qed

text \<open>
  The date of a day number, \<open>ord2ymd\<close>, is a date with that day number: the day
  numbers from one valid date to another are the day numbers of the valid dates
  between the two.
\<close>

lemma days_before_year_formula:
  assumes "0 \<le> b" "b \<le> 3" "0 \<le> c" "c \<le> 24" "0 \<le> e" "e \<le> 3"
  shows "days_before_year (400 * a + 100 * b + 4 * c + e + 1) =
     146097 * a + 36524 * b + 1461 * c + 365 * e"
proof -
  define p where "p = 400 * a + 100 * b + 4 * c + e"
  have "p = 4 * (100 * a + 25 * b + c) + e" by (simp add: p_def)
  with assms have d4: "p div 4 = 100 * a + 25 * b + c"
    by (intro int_div_pos_eq [where r = e]) simp_all
  have "p = 100 * (4 * a + b) + (4 * c + e)" by (simp add: p_def)
  with assms have d100: "p div 100 = 4 * a + b"
    by (intro int_div_pos_eq [where r = "4 * c + e"]) simp_all
  have "p = 400 * a + (100 * b + 4 * c + e)" by (simp add: p_def)
  with assms have d400: "p div 400 = a"
    by (intro int_div_pos_eq [where r = "100 * b + 4 * c + e"]) simp_all
  have "days_before_year (p + 1) = p * 365 + p div 4 - p div 100 + p div 400"
    by (simp add: days_before_year_def)
  then show ?thesis
    unfolding d4 d100 d400 by (simp add: p_def)
qed

lemma is_leap_formula:
  assumes "0 \<le> b" "b \<le> 3" "0 \<le> c" "c \<le> 24" "0 \<le> e" "e \<le> 3"
  shows "is_leap (400 * a + 100 * b + 4 * c + e + 1) \<longleftrightarrow> e = 3 \<and> (c \<noteq> 24 \<or> b = 3)"
proof -
  define y where "y = 400 * a + 100 * b + 4 * c + e + 1"
  have m4: "y mod 4 = 0 \<longleftrightarrow> e = 3"
  proof (cases "e = 3")
    case True
    then have "y = 4 * (100 * a + 25 * b + c + 1) + 0" by (simp add: y_def)
    then have "y mod 4 = 0"
      by (intro int_mod_pos_eq [where q = "100 * a + 25 * b + c + 1"]) simp_all
    with True show ?thesis by simp
  next
    case False
    have "y = 4 * (100 * a + 25 * b + c) + (e + 1)" by (simp add: y_def)
    with assms False have "y mod 4 = e + 1"
      by (intro int_mod_pos_eq [where q = "100 * a + 25 * b + c"]) simp_all
    with assms False show ?thesis by simp
  qed
  have m100: "y mod 100 = 0 \<longleftrightarrow> e = 3 \<and> c = 24"
  proof (cases "e = 3 \<and> c = 24")
    case True
    then have "y = 100 * (4 * a + b + 1) + 0" by (simp add: y_def)
    then have "y mod 100 = 0"
      by (intro int_mod_pos_eq [where q = "4 * a + b + 1"]) simp_all
    with True show ?thesis by simp
  next
    case False
    have "y = 100 * (4 * a + b) + (4 * c + e + 1)" by (simp add: y_def)
    moreover from assms False have "4 * c + e + 1 < 100" by auto
    ultimately have "y mod 100 = 4 * c + e + 1"
      using assms by (intro int_mod_pos_eq [where q = "4 * a + b"]) simp_all
    with assms False show ?thesis by auto
  qed
  have m400: "y mod 400 = 0 \<longleftrightarrow> e = 3 \<and> c = 24 \<and> b = 3"
  proof (cases "e = 3 \<and> c = 24 \<and> b = 3")
    case True
    then have "y = 400 * (a + 1) + 0" by (simp add: y_def)
    then have "y mod 400 = 0"
      by (intro int_mod_pos_eq [where q = "a + 1"]) simp_all
    with True show ?thesis by simp
  next
    case False
    have "y = 400 * a + (100 * b + 4 * c + e + 1)" by (simp add: y_def)
    moreover from assms False have "100 * b + 4 * c + e + 1 < 400" by auto
    ultimately have "y mod 400 = 100 * b + 4 * c + e + 1"
      using assms by (intro int_mod_pos_eq [where q = a]) simp_all
    with assms False show ?thesis by auto
  qed
  show ?thesis
    unfolding y_def [symmetric] is_leap_def m4 m100 m400 by auto
qed

lemma div32_bounds:
  fixes x :: int
  shows "32 * (x div 32) \<le> x" and "x < 32 * (x div 32) + 32"
proof -
  have "x = 32 * (x div 32) + x mod 32" by simp
  moreover have "0 \<le> x mod 32" "x mod 32 < 32" by simp_all
  ultimately show "32 * (x div 32) \<le> x" and "x < 32 * (x div 32) + 32" by linarith+
qed

lemma month_of_day_index:
  assumes r: "0 \<le> r" "r \<le> 364"
    and m: "m = (r + 50) div 32"
    and pre: "pre = DAYS_BEFORE_MONTH ! nat m + (if m > 2 \<and> L then 1 else 0)"
    and res: "(m', d) = (if pre > r
        then (m - 1, r - (pre - (DAYS_IN_MONTH ! nat (m - 1) +
                (if m - 1 = 2 \<and> L then 1 else 0))) + 1)
        else (m, r - pre + 1))"
  shows "1 \<le> m' \<and> m' \<le> 12 \<and> 1 \<le> d \<and>
     d \<le> (if m' = 2 \<and> L then 29 else DAYS_IN_MONTH ! nat m') \<and>
     DAYS_BEFORE_MONTH ! nat m' + (if m' > 2 \<and> L then 1 else 0) + d = r + 1"
proof -
  from div32_bounds [of "r + 50"] m
  have b: "32 * m \<le> r + 50" "r + 50 < 32 * m + 32"
    by simp_all
  with r have "1 \<le> m" "m \<le> 12"
    by linarith+
  then have "m = 1 \<or> m = 2 \<or> m = 3 \<or> m = 4 \<or> m = 5 \<or> m = 6 \<or> m = 7 \<or> m = 8 \<or> m = 9 \<or>
      m = 10 \<or> m = 11 \<or> m = 12"
    by (rule month_cases)
  then show ?thesis
  proof (elim disjE)
    assume "m = 1"
    with r b pre res show ?thesis
      by (auto simp: DAYS_BEFORE_MONTH_def DAYS_IN_MONTH_def split: if_splits)
  next
    assume "m = 2"
    with r b pre res show ?thesis
      by (auto simp: DAYS_BEFORE_MONTH_def DAYS_IN_MONTH_def split: if_splits)
  next
    assume "m = 3"
    with r b pre res show ?thesis
      by (auto simp: DAYS_BEFORE_MONTH_def DAYS_IN_MONTH_def split: if_splits)
  next
    assume "m = 4"
    with r b pre res show ?thesis
      by (auto simp: DAYS_BEFORE_MONTH_def DAYS_IN_MONTH_def split: if_splits)
  next
    assume "m = 5"
    with r b pre res show ?thesis
      by (auto simp: DAYS_BEFORE_MONTH_def DAYS_IN_MONTH_def split: if_splits)
  next
    assume "m = 6"
    with r b pre res show ?thesis
      by (auto simp: DAYS_BEFORE_MONTH_def DAYS_IN_MONTH_def split: if_splits)
  next
    assume "m = 7"
    with r b pre res show ?thesis
      by (auto simp: DAYS_BEFORE_MONTH_def DAYS_IN_MONTH_def split: if_splits)
  next
    assume "m = 8"
    with r b pre res show ?thesis
      by (auto simp: DAYS_BEFORE_MONTH_def DAYS_IN_MONTH_def split: if_splits)
  next
    assume "m = 9"
    with r b pre res show ?thesis
      by (auto simp: DAYS_BEFORE_MONTH_def DAYS_IN_MONTH_def split: if_splits)
  next
    assume "m = 10"
    with r b pre res show ?thesis
      by (auto simp: DAYS_BEFORE_MONTH_def DAYS_IN_MONTH_def split: if_splits)
  next
    assume "m = 11"
    with r b pre res show ?thesis
      by (auto simp: DAYS_BEFORE_MONTH_def DAYS_IN_MONTH_def split: if_splits)
  next
    assume "m = 12"
    with r b pre res show ?thesis
      by (auto simp: DAYS_BEFORE_MONTH_def DAYS_IN_MONTH_def split: if_splits)
  qed
qed

lemma div_mod_bounds:
  fixes x k :: int
  assumes "0 < k"
  shows "x = k * (x div k) + x mod k" and "0 \<le> x mod k" and "x mod k < k"
  using assms by simp_all

lemma ord2ymd_unfold:
  fixes n :: int
  defines "a \<equiv> (n - 1) div 146097"
    and "r1 \<equiv> (n - 1) mod 146097"
  defines "b \<equiv> r1 div 36524" and "r2 \<equiv> r1 mod 36524"
  defines "c \<equiv> r2 div 1461" and "r3 \<equiv> r2 mod 1461"
  defines "e \<equiv> r3 div 365" and "r4 \<equiv> r3 mod 365"
  defines "L \<equiv> (e = 3 \<and> (c \<noteq> 24 \<or> b = 3))"
  defines "m \<equiv> (r4 + 50) div 32"
  defines "pre \<equiv> DAYS_BEFORE_MONTH ! nat m + (if m > 2 \<and> L then 1 else 0)"
  shows "ord2ymd n =
     (if e = 4 \<or> b = 4 then (a * 400 + 1 + b * 100 + c * 4 + e - 1, 12, 31)
      else if pre > r4
        then (a * 400 + 1 + b * 100 + c * 4 + e, m - 1,
              r4 - (pre - (DAYS_IN_MONTH ! nat (m - 1) +
                (if m - 1 = 2 \<and> L then 1 else 0))) + 1)
        else (a * 400 + 1 + b * 100 + c * 4 + e, m, r4 - pre + 1))"
  unfolding ord2ymd_def Let_def a_def r1_def b_def r2_def c_def r3_def e_def r4_def L_def
    m_def pre_def
  by (simp only: add.assoc)

lemma ord2ymd_sound:
  assumes res: "ord2ymd n = (y, m, d)"
  shows "ymd2ord y m d = n \<and> 1 \<le> m \<and> m \<le> 12 \<and> 1 \<le> d \<and> d \<le> days_in_month y m"
proof -
  define a where "a = (n - 1) div 146097"
  define r1 where "r1 = (n - 1) mod 146097"
  define b where "b = r1 div 36524"
  define r2 where "r2 = r1 mod 36524"
  define c where "c = r2 div 1461"
  define r3 where "r3 = r2 mod 1461"
  define e where "e = r3 div 365"
  define r4 where "r4 = r3 mod 365"
  define L where "L \<longleftrightarrow> e = 3 \<and> (c \<noteq> 24 \<or> b = 3)"
  define m0 where "m0 = (r4 + 50) div 32"
  define pre where "pre = DAYS_BEFORE_MONTH ! nat m0 + (if m0 > 2 \<and> L then 1 else 0)"
  have unf: "ord2ymd n =
     (if e = 4 \<or> b = 4 then (a * 400 + 1 + b * 100 + c * 4 + e - 1, 12, 31)
      else if pre > r4
        then (a * 400 + 1 + b * 100 + c * 4 + e, m0 - 1,
              r4 - (pre - (DAYS_IN_MONTH ! nat (m0 - 1) +
                (if m0 - 1 = 2 \<and> L then 1 else 0))) + 1)
        else (a * 400 + 1 + b * 100 + c * 4 + e, m0, r4 - pre + 1))"
    unfolding a_def r1_def b_def r2_def c_def r3_def e_def r4_def L_def m0_def pre_def
    by (rule ord2ymd_unfold)
  have n: "n - 1 = 146097 * a + r1" and r1: "0 \<le> r1" "r1 < 146097"
    unfolding a_def r1_def by (rule div_mod_bounds; simp)+
  have r1': "r1 = 36524 * b + r2" and r2: "0 \<le> r2" "r2 < 36524"
    unfolding b_def r2_def by (rule div_mod_bounds; simp)+
  have r2': "r2 = 1461 * c + r3" and r3: "0 \<le> r3" "r3 < 1461"
    unfolding c_def r3_def by (rule div_mod_bounds; simp)+
  have r3': "r3 = 365 * e + r4" and r4: "0 \<le> r4" "r4 < 365"
    unfolding e_def r4_def by (rule div_mod_bounds; simp)+
  from r1 r1' r2 have b: "0 \<le> b" "b \<le> 4" by linarith+
  from r2 r2' r3 have c: "0 \<le> c" "c \<le> 24" by linarith+
  from r3 r3' r4 have e: "0 \<le> e" "e \<le> 4" by linarith+
  show ?thesis
  proof (cases "b = 4")
    case True
    with r1 r1' r2 have "r2 = 0" by linarith
    with r2' r3 c have "c = 0" "r3 = 0" by linarith+
    with r3' r4 e have "e = 0" "r4 = 0" by linarith+
    from unf res True \<open>c = 0\<close> \<open>e = 0\<close>
    have y: "y = 400 * a + 100 * 3 + 4 * 24 + 3 + 1" and m: "m = 12" and d: "d = 31"
      by simp_all
    have leap: "is_leap y"
      unfolding y by (subst is_leap_formula) simp_all
    have "days_before_year y = 146097 * a + 36524 * 3 + 1461 * 24 + 365 * 3"
      unfolding y by (rule days_before_year_formula) simp_all
    with leap n r1' True \<open>r2 = 0\<close> show ?thesis
      by (simp add: m d ymd2ord_def days_before_month_def days_in_month_def
          DAYS_BEFORE_MONTH_def DAYS_IN_MONTH_def)
  next
    case b4: False
    with b have b3: "b \<le> 3" by simp
    show ?thesis
    proof (cases "e = 4")
      case True
      with r3 r3' r4 have "r4 = 0" by linarith
      from True r2 r2' r3' r4 have "c \<le> 23" by linarith
      from unf res True
      have y: "y = 400 * a + 100 * b + 4 * c + 3 + 1" and m: "m = 12" and d: "d = 31"
        by simp_all
      from \<open>c \<le> 23\<close> have leap: "is_leap y"
        unfolding y using b b3 c by (subst is_leap_formula) simp_all
      have "days_before_year y = 146097 * a + 36524 * b + 1461 * c + 365 * 3"
        unfolding y using b b3 c by (intro days_before_year_formula) simp_all
      with leap n r1' r2' r3' True \<open>r4 = 0\<close> show ?thesis
        by (simp add: m d ymd2ord_def days_before_month_def days_in_month_def
            DAYS_BEFORE_MONTH_def DAYS_IN_MONTH_def)
    next
      case False
      with e have e3: "e \<le> 3" by simp
      from unf res b4 False
      have y: "y = 400 * a + 100 * b + 4 * c + e + 1"
        and md: "(m, d) = (if pre > r4
          then (m0 - 1, r4 - (pre - (DAYS_IN_MONTH ! nat (m0 - 1) +
                  (if m0 - 1 = 2 \<and> L then 1 else 0))) + 1)
          else (m0, r4 - pre + 1))"
        by (simp_all split: if_splits)
      have leap: "is_leap y \<longleftrightarrow> L"
        unfolding y L_def using b b3 c e e3 by (intro is_leap_formula)
      have dby: "days_before_year y = 146097 * a + 36524 * b + 1461 * c + 365 * e"
        unfolding y using b b3 c e e3 by (intro days_before_year_formula)
      from r4 have "0 \<le> r4" "r4 \<le> 364" by simp_all
      from month_of_day_index [OF this m0_def pre_def md]
      have "1 \<le> m" "m \<le> 12" "1 \<le> d"
        and "d \<le> (if m = 2 \<and> L then 29 else DAYS_IN_MONTH ! nat m)"
        and "DAYS_BEFORE_MONTH ! nat m + (if m > 2 \<and> L then 1 else 0) + d = r4 + 1"
        by simp_all
      with dby n r1' r2' r3' show ?thesis
        by (simp add: ymd2ord_def days_before_month_def days_in_month_def leap)
    qed
  qed
qed

lemma ymd2ord_bounds:
  assumes "1 \<le> m" "m \<le> 12" "1 \<le> d" "d \<le> days_in_month y m"
  shows "days_before_year y < ymd2ord y m d"
    and "ymd2ord y m d \<le> days_before_year (y + 1)"
proof -
  from assms days_before_month_nonneg [of m y]
  show "days_before_year y < ymd2ord y m d"
    by (simp add: ymd2ord_def)
  from assms month_end_le_year [of m y]
  show "ymd2ord y m d \<le> days_before_year (y + 1)"
    by (simp add: ymd2ord_def days_before_year_step split: if_splits)
qed

lemma day_number_is_date:
  assumes s: "valid_date s" and e: "valid_date e"
    and lo: "toordinal s \<le> n" and hi: "n \<le> toordinal e"
  shows "\<exists>dt. valid_date dt \<and> date_le s dt \<and> date_le dt e \<and> toordinal dt = n"
proof -
  obtain y m d where res: "ord2ymd n = (y, m, d)"
    by (cases "ord2ymd n")
  let ?dt = "\<lparr>year = y, month = m, day = d\<rparr>"
  from ord2ymd_sound [OF res]
  have ord: "ymd2ord y m d = n" and md: "1 \<le> m" "m \<le> 12" "1 \<le> d" "d \<le> days_in_month y m"
    by simp_all
  from ymd2ord_bounds [OF md] ord
  have below: "days_before_year y < n" and above: "n \<le> days_before_year (y + 1)"
    by simp_all
  have "year s \<le> y"
  proof (rule ccontr)
    assume "\<not> year s \<le> y"
    then have "days_before_year (y + 1) \<le> days_before_year (year s)"
      by (intro days_before_year_mono) simp
    with above toordinal_bounds(1) [OF s] lo show False
      by simp
  qed
  moreover have "y \<le> year e"
  proof (rule ccontr)
    assume "\<not> y \<le> year e"
    then have "days_before_year (year e + 1) \<le> days_before_year y"
      by (intro days_before_year_mono) simp
    with below toordinal_bounds(2) [OF e] hi show False
      by simp
  qed
  moreover from s e have "1 \<le> year s" "year e \<le> 9999"
    by (simp_all add: valid_date_def)
  ultimately have valid: "valid_date ?dt"
    using md by (simp add: valid_date_def)
  have n: "toordinal ?dt = n"
    by (simp add: toordinal_def ord)
  with lo hi have "date_le s ?dt" "date_le ?dt e"
    by (simp_all add: date_le_iff_toordinal [OF s valid] date_le_iff_toordinal [OF valid e])
  with valid n show ?thesis
    by blast
qed

section \<open>Building the timesheet\<close>

lemma length_init_timesheet:
  "length (init_timesheet start_date end_date employee_name) =
     nat (toordinal end_date - toordinal start_date + 1)"
  by (simp add: init_timesheet_def date_range_def)

lemma Date_init_timesheet:
  "map Date (init_timesheet start_date end_date employee_name) =
     [toordinal start_date .. toordinal end_date]"
  by (simp add: init_timesheet_def date_range_def comp_def)

lemma sorted_wrt_less_upto: "sorted_wrt (<) [i..j]"
proof -
  have "sorted [i..j]" "distinct [i..j]" by simp_all
  then show ?thesis by (simp add: strict_sorted_iff)
qed

text \<open>
  Claim C2. For valid dates with \<open>start_date \<le> end_date\<close>, \<open>init_timesheet\<close> returns
  \<open>(end_date - start_date).days + 1\<close> rows. Their dates are the consecutive days from
  the start to the end, both included: every date of the range has its row, every row
  has a date of the range, the dates are pairwise distinct and strictly ascending. Hours worked, hourly rate and daily
  total of every row are 0 and its task note is the empty string.
\<close>

theorem init_timesheet_rows:
  assumes "valid_date start_date" and "valid_date end_date"
    and "date_le start_date end_date"
  shows
    "int (length (init_timesheet start_date end_date employee_name)) =
       days_between start_date end_date + 1 \<and>
     map Date (init_timesheet start_date end_date employee_name) =
       [toordinal start_date .. toordinal end_date] \<and>
     (\<forall>d. valid_date d \<and> date_le start_date d \<and> date_le d end_date \<longrightarrow>
        toordinal d \<in> set (map Date (init_timesheet start_date end_date employee_name))) \<and>
     (\<forall>r \<in> set (init_timesheet start_date end_date employee_name).
        \<exists>d. valid_date d \<and> date_le start_date d \<and> date_le d end_date \<and>
          Date r = toordinal d) \<and>
     distinct (map Date (init_timesheet start_date end_date employee_name)) \<and>
     sorted_wrt (<) (map Date (init_timesheet start_date end_date employee_name)) \<and>
     (\<forall>r \<in> set (init_timesheet start_date end_date employee_name).
        Hours_Worked r = Some 0 \<and> Hourly_Rate r = Some 0 \<and> Daily_Total r = Some 0 \<and>
        Tasks_Completed r = Some [])"
proof -
  let ?df = "init_timesheet start_date end_date employee_name"
  from assms have le: "toordinal start_date \<le> toordinal end_date"
    by (simp add: date_le_iff_toordinal)
  then have "int (length ?df) = days_between start_date end_date + 1"
    by (simp add: length_init_timesheet days_between_def)
  moreover have dates: "map Date ?df = [toordinal start_date .. toordinal end_date]"
    by (rule Date_init_timesheet)
  moreover have "\<forall>d. valid_date d \<and> date_le start_date d \<and> date_le d end_date \<longrightarrow>
      toordinal d \<in> set (map Date ?df)"
    using assms(1,2) by (auto simp: dates date_le_iff_toordinal)
  moreover have "\<forall>r \<in> set ?df. \<exists>d. valid_date d \<and> date_le start_date d \<and>
      date_le d end_date \<and> Date r = toordinal d"
  proof
    fix r assume "r \<in> set ?df"
    then have "Date r \<in> set (map Date ?df)"
      by simp
    then have "toordinal start_date \<le> Date r" "Date r \<le> toordinal end_date"
      by (simp_all add: dates)
    from day_number_is_date [OF assms(1,2) this]
    show "\<exists>d. valid_date d \<and> date_le start_date d \<and> date_le d end_date \<and>
        Date r = toordinal d"
      by metis
  qed
  moreover have "distinct (map Date ?df)"
    by (simp add: dates)
  moreover have "sorted_wrt (<) (map Date ?df)"
    by (simp add: dates sorted_wrt_less_upto)
  moreover have "\<forall>r \<in> set ?df. Hours_Worked r = Some 0 \<and> Hourly_Rate r = Some 0 \<and>
      Daily_Total r = Some 0 \<and> Tasks_Completed r = Some []"
    by (auto simp: init_timesheet_def)
  ultimately show ?thesis by blast
qed

theorem init_timesheet_rows_witness:
  "valid_date \<lparr>year = 2025, month = 1, day = 1\<rparr> \<and>
   valid_date \<lparr>year = 2025, month = 1, day = 3\<rparr> \<and>
   date_le \<lparr>year = 2025, month = 1, day = 1\<rparr> \<lparr>year = 2025, month = 1, day = 3\<rparr> \<and>
   int (length (init_timesheet \<lparr>year = 2025, month = 1, day = 1\<rparr>
          \<lparr>year = 2025, month = 1, day = 3\<rparr> ''Alex'')) = 3 \<and>
   map Date (init_timesheet \<lparr>year = 2025, month = 1, day = 1\<rparr>
          \<lparr>year = 2025, month = 1, day = 3\<rparr> ''Alex'') = [739252, 739253, 739254] \<and>
   distinct (map Date (init_timesheet \<lparr>year = 2025, month = 1, day = 1\<rparr>
          \<lparr>year = 2025, month = 1, day = 3\<rparr> ''Alex''))"
proof -
  let ?s = "\<lparr>year = 2025, month = 1, day = 1\<rparr>"
  let ?e = "\<lparr>year = 2025, month = 1, day = 3\<rparr>"
  have s: "valid_date ?s" and e: "valid_date ?e"
    by (simp_all add: valid_date_def days_in_month_def DAYS_IN_MONTH_def)
  have le: "date_le ?s ?e"
    by (simp add: date_le_def date_lt_def)
  have os: "toordinal ?s = 739252" and oe: "toordinal ?e = 739254"
    by (simp_all add: toordinal_def ymd2ord_def days_before_year_def days_before_month_def
        DAYS_BEFORE_MONTH_def)
  have up: "[739252 .. 739254] = [739252, 739253, 739254::int]"
    by (simp add: upto.simps)
  note T = init_timesheet_rows [OF s e le, of "''Alex''"]
  from T have "int (length (init_timesheet ?s ?e ''Alex'')) = 3"
    by (simp add: days_between_def os oe)
  moreover from T have "map Date (init_timesheet ?s ?e ''Alex'') = [739252, 739253, 739254]"
    by (simp add: os oe up)
  moreover from T have "distinct (map Date (init_timesheet ?s ?e ''Alex''))"
    by blast
  ultimately show ?thesis using s e le by blast
qed

text \<open>
  Claim C5. For valid dates with \<open>start_date > end_date\<close>, \<open>init_timesheet\<close> returns the
  table with no rows, and does not fail. Over that table, whatever the editor hands
  back, the recomputed table has no rows, the weekly and the monthly summary have no
  entries, and total hours, total earnings, average hourly rate and days worked are 0.
\<close>

theorem init_timesheet_inverted_range:
  assumes "valid_date start_date" and "valid_date end_date"
    and "date_lt end_date start_date"
  shows
    "init_timesheet start_date end_date employee_name = [] \<and>
     recompute (init_timesheet start_date end_date employee_name) edited = [] \<and>
     weekly_summary (recompute (init_timesheet start_date end_date employee_name) edited) = [] \<and>
     monthly_summary (recompute (init_timesheet start_date end_date employee_name) edited) = [] \<and>
     total_hours (init_timesheet start_date end_date employee_name) = 0 \<and>
     total_earnings (init_timesheet start_date end_date employee_name) = 0 \<and>
     avg_hourly_rate (init_timesheet start_date end_date employee_name) = Some 0 \<and>
     days_worked (init_timesheet start_date end_date employee_name) = 0"
proof -
  from assms have "toordinal end_date < toordinal start_date"
    by (simp add: date_lt_iff_toordinal)
  then have empty: "init_timesheet start_date end_date employee_name = []"
    by (simp add: init_timesheet_def date_range_def)
  have "recompute [] edited = []"
    by (simp add: recompute_def assign_edits_def calculate_totals_def)
  moreover have "weekly_summary [] = []" "monthly_summary [] = []"
    by (simp_all add: weekly_summary_def monthly_summary_def round_summary_def groupby_sum_def)
  moreover have "total_hours [] = 0" "total_earnings [] = 0" "avg_hourly_rate [] = Some 0"
    "days_worked [] = 0"
    by (simp_all add: total_hours_def total_earnings_def avg_hourly_rate_def days_worked_def
        col_sum_def)
  ultimately show ?thesis
    by (simp add: empty)
qed

theorem init_timesheet_inverted_range_witness:
  "valid_date \<lparr>year = 2025, month = 3, day = 1\<rparr> \<and>
   valid_date \<lparr>year = 2025, month = 2, day = 28\<rparr> \<and>
   date_lt \<lparr>year = 2025, month = 2, day = 28\<rparr> \<lparr>year = 2025, month = 3, day = 1\<rparr> \<and>
   init_timesheet \<lparr>year = 2025, month = 3, day = 1\<rparr>
     \<lparr>year = 2025, month = 2, day = 28\<rparr> ''Alex'' = [] \<and>
   weekly_summary (recompute (init_timesheet \<lparr>year = 2025, month = 3, day = 1\<rparr>
     \<lparr>year = 2025, month = 2, day = 28\<rparr> ''Alex'')
       [(0, \<lparr>ed_Hours_Worked = Some 8, ed_Hourly_Rate = Some 20,
              ed_Tasks_Completed = Some ''new row''\<rparr>)]) = [] \<and>
   days_worked (init_timesheet \<lparr>year = 2025, month = 3, day = 1\<rparr>
     \<lparr>year = 2025, month = 2, day = 28\<rparr> ''Alex'') = 0"
proof -
  let ?s = "\<lparr>year = 2025, month = 3, day = 1\<rparr>"
  let ?e = "\<lparr>year = 2025, month = 2, day = 28\<rparr>"
  have s: "valid_date ?s" and e: "valid_date ?e"
    by (simp_all add: valid_date_def days_in_month_def DAYS_IN_MONTH_def is_leap_def)
  have lt: "date_lt ?e ?s"
    by (simp add: date_lt_def)
  note T = init_timesheet_inverted_range [OF s e lt, of "''Alex''"
      "[(0, \<lparr>ed_Hours_Worked = Some 8, ed_Hourly_Rate = Some 20,
              ed_Tasks_Completed = Some ''new row''\<rparr>)]"]
  from T s e lt show ?thesis by blast
qed

section \<open>Calculating the daily totals\<close>

text \<open>
  Claim C1. After \<open>calculate_totals\<close>, the daily total of every row is the product of
  its hours worked and its hourly rate (for two numbers \<open>h\<close> and \<open>r\<close> it is the number
  \<open>h * r\<close>), and the column of daily totals is a function of the columns of hours
  worked and hourly rates alone: two tables that agree on these two columns get the
  same daily totals.
\<close>

theorem calculate_totals_product:
  "(\<forall>r \<in> set (calculate_totals df).
      Daily_Total r = cell_mul (Hours_Worked r) (Hourly_Rate r)) \<and>
   (\<forall>i < length df. \<forall>h r. Hours_Worked (df ! i) = Some h \<and> Hourly_Rate (df ! i) = Some r \<longrightarrow>
      Daily_Total (calculate_totals df ! i) = Some (h * r)) \<and>
   (map Hours_Worked df = map Hours_Worked df' \<and> map Hourly_Rate df = map Hourly_Rate df' \<longrightarrow>
      map Daily_Total (calculate_totals df) = map Daily_Total (calculate_totals df'))"
proof (intro conjI)
  show "\<forall>r \<in> set (calculate_totals df).
      Daily_Total r = cell_mul (Hours_Worked r) (Hourly_Rate r)"
    by (auto simp: calculate_totals_def)
  show "\<forall>i < length df. \<forall>h r. Hours_Worked (df ! i) = Some h \<and> Hourly_Rate (df ! i) = Some r \<longrightarrow>
      Daily_Total (calculate_totals df ! i) = Some (h * r)"
    by (simp add: calculate_totals_def cell_mul_def)
  show "map Hours_Worked df = map Hours_Worked df' \<and> map Hourly_Rate df = map Hourly_Rate df' \<longrightarrow>
      map Daily_Total (calculate_totals df) = map Daily_Total (calculate_totals df')"
  proof
    assume eq: "map Hours_Worked df = map Hours_Worked df' \<and> map Hourly_Rate df = map Hourly_Rate df'"
    have "map Daily_Total (calculate_totals d) =
            map (\<lambda>(h, r). cell_mul h r) (zip (map Hours_Worked d) (map Hourly_Rate d))" for d
      by (induction d) (simp_all add: calculate_totals_def)
    with eq show "map Daily_Total (calculate_totals df) = map Daily_Total (calculate_totals df')"
      by simp
  qed
qed

theorem calculate_totals_product_witness:
  "(0::nat) < length [\<lparr>Date = 739252, Day = ''Wednesday'', Hours_Worked = Some 8,
       Hourly_Rate = Some 20, Daily_Total = Some 0, Tasks_Completed = Some ''audit'',
       Week = 1, Month = ''January'', Employee_Name = ''Alex''\<rparr>] \<and>
   Daily_Total (calculate_totals [\<lparr>Date = 739252, Day = ''Wednesday'', Hours_Worked = Some 8,
       Hourly_Rate = Some 20, Daily_Total = Some 0, Tasks_Completed = Some ''audit'',
       Week = 1, Month = ''January'', Employee_Name = ''Alex''\<rparr>] ! 0) = Some 160 \<and>
   map Daily_Total (calculate_totals [\<lparr>Date = 739252, Day = ''Wednesday'',
       Hours_Worked = Some 8, Hourly_Rate = Some 20, Daily_Total = Some 0,
       Tasks_Completed = Some ''audit'', Week = 1, Month = ''January'',
       Employee_Name = ''Alex''\<rparr>]) =
   map Daily_Total (calculate_totals [\<lparr>Date = 739253, Day = ''Thursday'',
       Hours_Worked = Some 8, Hourly_Rate = Some 20, Daily_Total = None,
       Tasks_Completed = None, Week = 1, Month = ''January'', Employee_Name = ''Sam''\<rparr>])"
proof -
  let ?a = "\<lparr>Date = 739252, Day = ''Wednesday'', Hours_Worked = Some 8,
       Hourly_Rate = Some 20, Daily_Total = Some 0, Tasks_Completed = Some ''audit'',
       Week = 1, Month = ''January'', Employee_Name = ''Alex''\<rparr>"
  let ?b = "\<lparr>Date = 739253, Day = ''Thursday'',
       Hours_Worked = Some 8, Hourly_Rate = Some 20, Daily_Total = None,
       Tasks_Completed = None, Week = 1, Month = ''January'', Employee_Name = ''Sam''\<rparr>"
  have idx: "(0::nat) < length [?a]"
    by simp
  have cells: "Hours_Worked ([?a] ! 0) = Some 8 \<and> Hourly_Rate ([?a] ! 0) = Some 20"
    by simp
  have cols: "map Hours_Worked [?a] = map Hours_Worked [?b] \<and>
              map Hourly_Rate [?a] = map Hourly_Rate [?b]"
    by simp
  note T = calculate_totals_product [of "[?a]" "[?b]"]
  from T idx cells have "Daily_Total (calculate_totals [?a] ! 0) = Some (8 * 20)"
    by blast
  then have one: "Daily_Total (calculate_totals [?a] ! 0) = Some 160"
    by simp
  from T cols have two: "map Daily_Total (calculate_totals [?a]) =
      map Daily_Total (calculate_totals [?b])"
    by blast
  from idx one two show ?thesis
    by (intro conjI)
qed

text \<open>
  Claim C9. \<open>calculate_totals\<close> changes the Daily Total column only: the result has as
  many rows as its input, in the same order, and each of the columns Date, Day, Hours
  Worked, Hourly Rate, Tasks Completed, Week, Month and Employee Name of the result is
  the same column of the input.
\<close>

theorem calculate_totals_frame:
  "length (calculate_totals df) = length df \<and>
   map Date (calculate_totals df) = map Date df \<and>
   map Day (calculate_totals df) = map Day df \<and>
   map Hours_Worked (calculate_totals df) = map Hours_Worked df \<and>
   map Hourly_Rate (calculate_totals df) = map Hourly_Rate df \<and>
   map Tasks_Completed (calculate_totals df) = map Tasks_Completed df \<and>
   map Week (calculate_totals df) = map Week df \<and>
   map Month (calculate_totals df) = map Month df \<and>
   map Employee_Name (calculate_totals df) = map Employee_Name df"
  by (simp add: calculate_totals_def)

section \<open>The derived metrics\<close>

lemma col_sum_Some: "col_sum (map Some xs) = sum_list xs"
  by (simp add: col_sum_def comp_def)

lemma filter_gt0_Some: "filter gt0 (map Some xs) = map Some (filter (\<lambda>x. 0 < x) xs)"
  by (induction xs) (simp_all add: gt0_def)

lemma col_mean_Some:
  "col_mean (map Some xs) = (if xs = [] then None else Some (sum_list xs / of_nat (length xs)))"
proof -
  have "filter (\<lambda>c. c \<noteq> None) (map Some xs) = map Some xs"
    by (induction xs) simp_all
  then show ?thesis
    by (simp add: col_mean_def col_sum_Some)
qed

lemma column_filter:
  "map f (filter (\<lambda>r. P (f r)) df) = filter P (map f df)"
  by (induction df) simp_all

lemma total_hours_numbers:
  "map Hours_Worked df = map Some hours \<Longrightarrow> total_hours df = sum_list hours"
  by (simp add: total_hours_def col_sum_Some)

lemma total_earnings_numbers:
  "map Daily_Total df = map Some totals \<Longrightarrow> total_earnings df = sum_list totals"
  by (simp add: total_earnings_def col_sum_Some)

lemma days_worked_numbers:
  assumes "map Hours_Worked df = map Some hours"
  shows "days_worked df = spec_days_worked hours"
proof -
  have "days_worked df = length (map Hours_Worked (filter (\<lambda>r. gt0 (Hours_Worked r)) df))"
    by (simp add: days_worked_def)
  also have "\<dots> = length (filter gt0 (map Some hours))"
    by (simp only: column_filter assms)
  finally show ?thesis
    by (simp add: filter_gt0_Some spec_days_worked_def)
qed

lemma avg_hourly_rate_numbers:
  assumes "map Hourly_Rate df = map Some rates"
  shows "avg_hourly_rate df = Some (spec_average_rate rates)"
proof -
  have sel: "map Hourly_Rate (filter (\<lambda>r. gt0 (Hourly_Rate r)) df) =
      map Some (filter (\<lambda>x. 0 < x) rates)"
    by (simp only: column_filter assms filter_gt0_Some)
  then have len: "length (filter (\<lambda>r. gt0 (Hourly_Rate r)) df) =
      length (filter (\<lambda>x. 0 < x) rates)"
    by (metis length_map)
  show ?thesis
    unfolding avg_hourly_rate_def sel len col_mean_Some spec_average_rate_def Let_def
    by simp
qed

text \<open>
  Claim C7. Over a table whose columns hold numbers, total hours is the sum of the
  hours worked, total earnings the sum of the daily totals, the average hourly rate the
  mean of the hourly rates above 0 (and 0 when no rate is above 0), and days worked the
  number of rows with hours above 0. For the range 2025-01-01 to 2025-01-03 with hours
  and rates (8, 20), (6, 25), (0, 0): total hours 14, total earnings 310, average rate
  22.5, days worked 2, and the weekly summary is one entry with hours 14 and earnings
  310.
\<close>

theorem derived_metrics:
  "(map Hours_Worked df = map Some hours \<longrightarrow>
      total_hours df = sum_list hours \<and> days_worked df = spec_days_worked hours) \<and>
   (map Daily_Total df = map Some totals \<longrightarrow> total_earnings df = sum_list totals) \<and>
   (map Hourly_Rate df = map Some rates \<longrightarrow>
      avg_hourly_rate df = Some (spec_average_rate rates)) \<and>
   (let sheet = recompute
        (init_timesheet \<lparr>year = 2025, month = 1, day = 1\<rparr>
           \<lparr>year = 2025, month = 1, day = 3\<rparr> ''Alex'')
        [(0, \<lparr>ed_Hours_Worked = Some 8, ed_Hourly_Rate = Some 20,
               ed_Tasks_Completed = Some []\<rparr>),
         (1, \<lparr>ed_Hours_Worked = Some 6, ed_Hourly_Rate = Some 25,
               ed_Tasks_Completed = Some []\<rparr>),
         (2, \<lparr>ed_Hours_Worked = Some 0, ed_Hourly_Rate = Some 0,
               ed_Tasks_Completed = Some []\<rparr>)]
    in total_hours sheet = 14 \<and> total_earnings sheet = 310 \<and>
       avg_hourly_rate sheet = Some (45 / 2) \<and> days_worked sheet = 2 \<and>
       weekly_summary sheet = [(1, 14, 310)])"
proof (intro conjI)
  show "map Hours_Worked df = map Some hours \<longrightarrow>
      total_hours df = sum_list hours \<and> days_worked df = spec_days_worked hours"
    by (simp add: total_hours_numbers days_worked_numbers)
  show "map Daily_Total df = map Some totals \<longrightarrow> total_earnings df = sum_list totals"
    by (simp add: total_earnings_numbers)
  show "map Hourly_Rate df = map Some rates \<longrightarrow>
      avg_hourly_rate df = Some (spec_average_rate rates)"
    by (simp add: avg_hourly_rate_numbers)
  show "let sheet = recompute
        (init_timesheet \<lparr>year = 2025, month = 1, day = 1\<rparr>
           \<lparr>year = 2025, month = 1, day = 3\<rparr> ''Alex'')
        [(0, \<lparr>ed_Hours_Worked = Some 8, ed_Hourly_Rate = Some 20,
               ed_Tasks_Completed = Some []\<rparr>),
         (1, \<lparr>ed_Hours_Worked = Some 6, ed_Hourly_Rate = Some 25,
               ed_Tasks_Completed = Some []\<rparr>),
         (2, \<lparr>ed_Hours_Worked = Some 0, ed_Hourly_Rate = Some 0,
               ed_Tasks_Completed = Some []\<rparr>)]
    in total_hours sheet = 14 \<and> total_earnings sheet = 310 \<and>
       avg_hourly_rate sheet = Some (45 / 2) \<and> days_worked sheet = 2 \<and>
       weekly_summary sheet = [(1, 14, 310)]"
    by code_simp
qed

theorem derived_metrics_witness:
  "map Hours_Worked (recompute
      (init_timesheet \<lparr>year = 2025, month = 3, day = 31\<rparr>
         \<lparr>year = 2025, month = 4, day = 1\<rparr> ''Sam'')
      [(0, \<lparr>ed_Hours_Worked = Some (15 / 2), ed_Hourly_Rate = Some 30,
             ed_Tasks_Completed = Some ''inventory''\<rparr>),
       (1, \<lparr>ed_Hours_Worked = Some 0, ed_Hourly_Rate = Some 0,
             ed_Tasks_Completed = Some []\<rparr>)]) = map Some [15 / 2, 0] \<and>
   total_hours (recompute
      (init_timesheet \<lparr>year = 2025, month = 3, day = 31\<rparr>
         \<lparr>year = 2025, month = 4, day = 1\<rparr> ''Sam'')
      [(0, \<lparr>ed_Hours_Worked = Some (15 / 2), ed_Hourly_Rate = Some 30,
             ed_Tasks_Completed = Some ''inventory''\<rparr>),
       (1, \<lparr>ed_Hours_Worked = Some 0, ed_Hourly_Rate = Some 0,
             ed_Tasks_Completed = Some []\<rparr>)]) = 15 / 2 \<and>
   days_worked (recompute
      (init_timesheet \<lparr>year = 2025, month = 3, day = 31\<rparr>
         \<lparr>year = 2025, month = 4, day = 1\<rparr> ''Sam'')
      [(0, \<lparr>ed_Hours_Worked = Some (15 / 2), ed_Hourly_Rate = Some 30,
             ed_Tasks_Completed = Some ''inventory''\<rparr>),
       (1, \<lparr>ed_Hours_Worked = Some 0, ed_Hourly_Rate = Some 0,
             ed_Tasks_Completed = Some []\<rparr>)]) = 1 \<and>
   total_earnings (recompute
      (init_timesheet \<lparr>year = 2025, month = 3, day = 31\<rparr>
         \<lparr>year = 2025, month = 4, day = 1\<rparr> ''Sam'')
      [(0, \<lparr>ed_Hours_Worked = Some (15 / 2), ed_Hourly_Rate = Some 30,
             ed_Tasks_Completed = Some ''inventory''\<rparr>),
       (1, \<lparr>ed_Hours_Worked = Some 0, ed_Hourly_Rate = Some 0,
             ed_Tasks_Completed = Some []\<rparr>)]) = 225 \<and>
   avg_hourly_rate (recompute
      (init_timesheet \<lparr>year = 2025, month = 3, day = 31\<rparr>
         \<lparr>year = 2025, month = 4, day = 1\<rparr> ''Sam'')
      [(0, \<lparr>ed_Hours_Worked = Some (15 / 2), ed_Hourly_Rate = Some 30,
             ed_Tasks_Completed = Some ''inventory''\<rparr>),
       (1, \<lparr>ed_Hours_Worked = Some 0, ed_Hourly_Rate = Some 0,
             ed_Tasks_Completed = Some []\<rparr>)]) = Some 30"
proof -
  let ?df = "recompute
      (init_timesheet \<lparr>year = 2025, month = 3, day = 31\<rparr>
         \<lparr>year = 2025, month = 4, day = 1\<rparr> ''Sam'')
      [(0, \<lparr>ed_Hours_Worked = Some (15 / 2), ed_Hourly_Rate = Some 30,
             ed_Tasks_Completed = Some ''inventory''\<rparr>),
       (1, \<lparr>ed_Hours_Worked = Some 0, ed_Hourly_Rate = Some 0,
             ed_Tasks_Completed = Some []\<rparr>)]"
  have h: "map Hours_Worked ?df = map Some [15 / 2, 0]"
    by code_simp
  have t: "map Daily_Total ?df = map Some [225, 0]"
    by code_simp
  have r: "map Hourly_Rate ?df = map Some [30, 0]"
    by code_simp
  note T = derived_metrics [of ?df "[15 / 2, 0]" "[225, 0]" "[30, 0]"]
  from T h have "total_hours ?df = sum_list [15 / 2, 0]"
    and "days_worked ?df = spec_days_worked [15 / 2, 0]"
    by blast+
  then have one: "total_hours ?df = 15 / 2" and two: "days_worked ?df = 1"
    by (simp_all add: spec_days_worked_def)
  from T t have "total_earnings ?df = sum_list [225, 0]"
    by blast
  then have three: "total_earnings ?df = 225"
    by simp
  from T r have "avg_hourly_rate ?df = Some (spec_average_rate [30, 0])"
    by blast
  then have four: "avg_hourly_rate ?df = Some 30"
    by (simp add: spec_average_rate_def)
  from h one two three four show ?thesis
    by (intro conjI)
qed

section \<open>The weekly and monthly summaries\<close>

lemma keys_groupby_sum: "map fst (groupby_sum key df) = sort (remdups (map key df))"
  by (simp add: groupby_sum_def comp_def)

lemma keys_round_summary: "map fst (round_summary s) = map fst s"
  by (induction s) (auto simp: round_summary_def)

lemma groupby_keys_sorted:
  "sorted_wrt (<) (map fst (groupby_sum key df))"
  by (simp add: keys_groupby_sum strict_sorted_iff)

lemma groupby_keys_set: "set (map fst (groupby_sum key df)) = key ` set df"
  by (simp add: keys_groupby_sum)

lemma groupby_sum_entry:
  "(k, h, e) \<in> set (groupby_sum key df) \<longleftrightarrow>
     k \<in> key ` set df \<and>
     h = col_sum (map Hours_Worked (filter (\<lambda>r. key r = k) df)) \<and>
     e = col_sum (map Daily_Total (filter (\<lambda>r. key r = k) df))"
  by (auto simp: groupby_sum_def)

lemma round_summary_entry:
  "(k, h, e) \<in> set (round_summary s) \<longleftrightarrow>
     (\<exists>h' e'. (k, h', e') \<in> set s \<and> h = round2 h' \<and> e = round2 e')"
  by (force simp: round_summary_def)

lemma summary_entry:
  assumes "k \<in> key ` set df"
  shows "(k, round2 (col_sum (map Hours_Worked (filter (\<lambda>r. key r = k) df))),
             round2 (col_sum (map Daily_Total (filter (\<lambda>r. key r = k) df))))
           \<in> set (round_summary (groupby_sum key df))"
  using assms by (subst round_summary_entry) (simp add: groupby_sum_entry)

lemma length_groupby_sum: "length (groupby_sum key df) = card (key ` set df)"
proof -
  have "length (groupby_sum key df) = length (remdups (map key df))"
    by (simp add: groupby_sum_def)
  also have "\<dots> = card (set (map key df))"
    by (simp add: length_remdups_card_conv)
  finally show ?thesis by simp
qed

text \<open>
  Claim C3, as the code has it. The monthly summary has one entry for each month name
  that occurs in the table; the entry holds the sum of the hours worked and the sum of
  the daily totals of the rows of that month, each rounded to 2 decimal places; the
  entries are in strictly ascending order of the month names as strings, which is the
  alphabetical order.
\<close>

theorem monthly_summary_alphabetical:
  "sorted_wrt (<) (map fst (monthly_summary df)) \<and>
   set (map fst (monthly_summary df)) = Month ` set df \<and>
   length (monthly_summary df) = card (Month ` set df) \<and>
   (\<forall>k \<in> Month ` set df.
      (k, round2 (col_sum (map Hours_Worked (filter (\<lambda>r. Month r = k) df))),
          round2 (col_sum (map Daily_Total (filter (\<lambda>r. Month r = k) df))))
        \<in> set (monthly_summary df))"
proof (intro conjI ballI)
  show "sorted_wrt (<) (map fst (monthly_summary df))"
    by (simp only: monthly_summary_def keys_round_summary groupby_keys_sorted)
  show "set (map fst (monthly_summary df)) = Month ` set df"
    by (simp only: monthly_summary_def keys_round_summary groupby_keys_set)
  show "length (monthly_summary df) = card (Month ` set df)"
    by (simp add: monthly_summary_def round_summary_def length_groupby_sum)
next
  fix k assume "k \<in> Month ` set df"
  then show "(k, round2 (col_sum (map Hours_Worked (filter (\<lambda>r. Month r = k) df))),
          round2 (col_sum (map Daily_Total (filter (\<lambda>r. Month r = k) df))))
        \<in> set (monthly_summary df)"
    unfolding monthly_summary_def by (rule summary_entry)
qed

theorem monthly_summary_alphabetical_witness:
  "''April'' \<in> Month ` set (recompute
      (init_timesheet \<lparr>year = 2025, month = 3, day = 31\<rparr>
         \<lparr>year = 2025, month = 4, day = 1\<rparr> ''Sam'')
      [(0, \<lparr>ed_Hours_Worked = Some (15 / 2), ed_Hourly_Rate = Some 30,
             ed_Tasks_Completed = Some ''inventory''\<rparr>),
       (1, \<lparr>ed_Hours_Worked = Some 4, ed_Hourly_Rate = Some (61 / 4),
             ed_Tasks_Completed = Some []\<rparr>)]) \<and>
   (''April'', 4, 61) \<in> set (monthly_summary (recompute
      (init_timesheet \<lparr>year = 2025, month = 3, day = 31\<rparr>
         \<lparr>year = 2025, month = 4, day = 1\<rparr> ''Sam'')
      [(0, \<lparr>ed_Hours_Worked = Some (15 / 2), ed_Hourly_Rate = Some 30,
             ed_Tasks_Completed = Some ''inventory''\<rparr>),
       (1, \<lparr>ed_Hours_Worked = Some 4, ed_Hourly_Rate = Some (61 / 4),
             ed_Tasks_Completed = Some []\<rparr>)])) \<and>
   length (monthly_summary (recompute
      (init_timesheet \<lparr>year = 2025, month = 3, day = 31\<rparr>
         \<lparr>year = 2025, month = 4, day = 1\<rparr> ''Sam'')
      [(0, \<lparr>ed_Hours_Worked = Some (15 / 2), ed_Hourly_Rate = Some 30,
             ed_Tasks_Completed = Some ''inventory''\<rparr>),
       (1, \<lparr>ed_Hours_Worked = Some 4, ed_Hourly_Rate = Some (61 / 4),
             ed_Tasks_Completed = Some []\<rparr>)])) = 2"
proof -
  let ?df = "recompute
      (init_timesheet \<lparr>year = 2025, month = 3, day = 31\<rparr>
         \<lparr>year = 2025, month = 4, day = 1\<rparr> ''Sam'')
      [(0, \<lparr>ed_Hours_Worked = Some (15 / 2), ed_Hourly_Rate = Some 30,
             ed_Tasks_Completed = Some ''inventory''\<rparr>),
       (1, \<lparr>ed_Hours_Worked = Some 4, ed_Hourly_Rate = Some (61 / 4),
             ed_Tasks_Completed = Some []\<rparr>)]"
  have months: "map Month ?df = [''March'', ''April'']"
    by code_simp
  have "Month ` set ?df = set (map Month ?df)"
    by simp
  then have img: "Month ` set ?df = {''March'', ''April''}"
    by (simp only: months) simp
  then have april: "''April'' \<in> Month ` set ?df"
    by simp
  have hours: "round2 (col_sum (map Hours_Worked (filter (\<lambda>r. Month r = ''April'') ?df))) = 4"
    by code_simp
  have totals: "round2 (col_sum (map Daily_Total (filter (\<lambda>r. Month r = ''April'') ?df))) = 61"
    by code_simp
  note T = monthly_summary_alphabetical [of ?df]
  from T april
  have "(''April'', round2 (col_sum (map Hours_Worked (filter (\<lambda>r. Month r = ''April'') ?df))),
          round2 (col_sum (map Daily_Total (filter (\<lambda>r. Month r = ''April'') ?df))))
        \<in> set (monthly_summary ?df)"
    by blast
  then have entry: "(''April'', 4, 61) \<in> set (monthly_summary ?df)"
    by (simp only: hours totals)
  from T have "length (monthly_summary ?df) = card (Month ` set ?df)"
    by blast
  then have len: "length (monthly_summary ?df) = 2"
    by (simp only: img) simp
  from april entry len show ?thesis
    by (intro conjI)
qed

text \<open>
  The claim as the specification words it fails: over the two days 2025-03-31 and
  2025-04-01 the summary lists April before March, while March occurs first.
\<close>

theorem monthly_summary_order_counterexample:
  "map fst (monthly_summary (init_timesheet \<lparr>year = 2025, month = 3, day = 31\<rparr>
      \<lparr>year = 2025, month = 4, day = 1\<rparr> ''Alex'')) = [''April'', ''March''] \<and>
   first_occurrences (map Month (init_timesheet \<lparr>year = 2025, month = 3, day = 31\<rparr>
      \<lparr>year = 2025, month = 4, day = 1\<rparr> ''Alex'')) = [''March'', ''April''] \<and>
   map fst (monthly_summary (init_timesheet \<lparr>year = 2025, month = 3, day = 31\<rparr>
      \<lparr>year = 2025, month = 4, day = 1\<rparr> ''Alex'')) \<noteq>
   first_occurrences (map Month (init_timesheet \<lparr>year = 2025, month = 3, day = 31\<rparr>
      \<lparr>year = 2025, month = 4, day = 1\<rparr> ''Alex''))"
  by code_simp

section \<open>Conservation of the totals across groups\<close>











section \<open>Values the editor supplies\<close>

lemma length_recompute: "length (recompute df edited) = length df"
  by (simp add: recompute_def calculate_totals_def assign_edits_def)

lemma nth_assign_edits:
  assumes "i < length df"
  shows "assign_edits df edited ! i =
     (case map_of edited i of
        None \<Rightarrow> (df ! i)\<lparr>Hours_Worked := None, Hourly_Rate := None, Tasks_Completed := None\<rparr>
      | Some e \<Rightarrow> (df ! i)\<lparr>Hours_Worked := ed_Hours_Worked e, Hourly_Rate := ed_Hourly_Rate e,
                          Tasks_Completed := ed_Tasks_Completed e\<rparr>)"
  using assms by (simp add: assign_edits_def nth_enumerate_eq)

lemma nth_recompute:
  assumes "i < length df"
  shows "recompute df edited ! i =
     (let r = assign_edits df edited ! i
      in r\<lparr>Daily_Total := cell_mul (Hours_Worked r) (Hourly_Rate r)\<rparr>)"
  using assms by (simp add: recompute_def calculate_totals_def assign_edits_def Let_def)

lemma recompute_supplied:
  assumes "i < length df" and "map_of edited i = Some e"
  shows "Hours_Worked (recompute df edited ! i) = ed_Hours_Worked e"
    and "Hourly_Rate (recompute df edited ! i) = ed_Hourly_Rate e"
    and "Daily_Total (recompute df edited ! i) = cell_mul (ed_Hours_Worked e) (ed_Hourly_Rate e)"
  using assms by (simp_all add: nth_recompute nth_assign_edits Let_def)

lemma recompute_row_local:
  assumes "i < length df" and "map_of edited i = map_of edited' i"
  shows "recompute df edited ! i = recompute df edited' ! i"
  using assms by (simp add: nth_recompute nth_assign_edits)

text \<open>
  Claim C6, as the code has it. The program does not validate what the editor supplies:
  for every row whose label the editor holds, the supplied hours worked and hourly
  rate replace the prior values, a missing or an out-of-bound value as well, and the
  daily total of the row becomes their product (NaN when either is missing). The pass
  completes for every row: the result has as many rows as the table, and a row of the
  result depends on the editor's entry for that row only, so changing the value
  supplied for one row leaves every other row of the result as it is.
\<close>

theorem recompute_takes_supplied_values:
  "length (recompute df edited) = length df \<and>
   (\<forall>i < length df. \<forall>e. map_of edited i = Some e \<longrightarrow>
      Hours_Worked (recompute df edited ! i) = ed_Hours_Worked e \<and>
      Hourly_Rate (recompute df edited ! i) = ed_Hourly_Rate e \<and>
      Daily_Total (recompute df edited ! i) =
        cell_mul (ed_Hours_Worked e) (ed_Hourly_Rate e)) \<and>
   (\<forall>i < length df. map_of edited i = map_of edited' i \<longrightarrow>
      recompute df edited ! i = recompute df edited' ! i)"
proof (intro conjI allI impI)
  show "length (recompute df edited) = length df"
    by (rule length_recompute)
next
  fix i e assume "i < length df" and "map_of edited i = Some e"
  then show "Hours_Worked (recompute df edited ! i) = ed_Hours_Worked e"
    and "Hourly_Rate (recompute df edited ! i) = ed_Hourly_Rate e"
    and "Daily_Total (recompute df edited ! i) =
        cell_mul (ed_Hours_Worked e) (ed_Hourly_Rate e)"
    by (rule recompute_supplied)+
next
  fix i assume "i < length df" and "map_of edited i = map_of edited' i"
  then show "recompute df edited ! i = recompute df edited' ! i"
    by (rule recompute_row_local)
qed

theorem recompute_takes_supplied_values_witness:
  "(0::nat) < length (recompute
      (init_timesheet \<lparr>year = 2025, month = 1, day = 1\<rparr>
         \<lparr>year = 2025, month = 1, day = 2\<rparr> ''Alex'')
      [(0::nat, \<lparr>ed_Hours_Worked = Some 8, ed_Hourly_Rate = Some 20,
             ed_Tasks_Completed = Some []\<rparr>),
       (1, \<lparr>ed_Hours_Worked = Some 6, ed_Hourly_Rate = Some 25,
             ed_Tasks_Completed = Some []\<rparr>)]) \<and> (1::nat) < length (recompute
      (init_timesheet \<lparr>year = 2025, month = 1, day = 1\<rparr>
         \<lparr>year = 2025, month = 1, day = 2\<rparr> ''Alex'')
      [(0::nat, \<lparr>ed_Hours_Worked = Some 8, ed_Hourly_Rate = Some 20,
             ed_Tasks_Completed = Some []\<rparr>),
       (1, \<lparr>ed_Hours_Worked = Some 6, ed_Hourly_Rate = Some 25,
             ed_Tasks_Completed = Some []\<rparr>)]) \<and>
   map_of [(0::nat, \<lparr>ed_Hours_Worked = Some 25, ed_Hourly_Rate = Some 20,
             ed_Tasks_Completed = Some []\<rparr>),
       (1, \<lparr>ed_Hours_Worked = Some 6, ed_Hourly_Rate = None,
             ed_Tasks_Completed = Some []\<rparr>)] 0 =
     Some \<lparr>ed_Hours_Worked = Some 25, ed_Hourly_Rate = Some 20,
            ed_Tasks_Completed = Some []\<rparr> \<and>
   map_of [(0::nat, \<lparr>ed_Hours_Worked = Some 25, ed_Hourly_Rate = Some 20,
             ed_Tasks_Completed = Some []\<rparr>),
       (1, \<lparr>ed_Hours_Worked = Some 6, ed_Hourly_Rate = None,
             ed_Tasks_Completed = Some []\<rparr>)] 1 = map_of [(0::nat, \<lparr>ed_Hours_Worked = Some 8, ed_Hourly_Rate = Some 20,
             ed_Tasks_Completed = Some []\<rparr>),
       (1, \<lparr>ed_Hours_Worked = Some 6, ed_Hourly_Rate = None,
             ed_Tasks_Completed = Some []\<rparr>)] 1 \<and>
   length (recompute (recompute
      (init_timesheet \<lparr>year = 2025, month = 1, day = 1\<rparr>
         \<lparr>year = 2025, month = 1, day = 2\<rparr> ''Alex'')
      [(0::nat, \<lparr>ed_Hours_Worked = Some 8, ed_Hourly_Rate = Some 20,
             ed_Tasks_Completed = Some []\<rparr>),
       (1, \<lparr>ed_Hours_Worked = Some 6, ed_Hourly_Rate = Some 25,
             ed_Tasks_Completed = Some []\<rparr>)]) [(0::nat, \<lparr>ed_Hours_Worked = Some 25, ed_Hourly_Rate = Some 20,
             ed_Tasks_Completed = Some []\<rparr>),
       (1, \<lparr>ed_Hours_Worked = Some 6, ed_Hourly_Rate = None,
             ed_Tasks_Completed = Some []\<rparr>)]) = 2 \<and>
   Hours_Worked (recompute (recompute
      (init_timesheet \<lparr>year = 2025, month = 1, day = 1\<rparr>
         \<lparr>year = 2025, month = 1, day = 2\<rparr> ''Alex'')
      [(0::nat, \<lparr>ed_Hours_Worked = Some 8, ed_Hourly_Rate = Some 20,
             ed_Tasks_Completed = Some []\<rparr>),
       (1, \<lparr>ed_Hours_Worked = Some 6, ed_Hourly_Rate = Some 25,
             ed_Tasks_Completed = Some []\<rparr>)]) [(0::nat, \<lparr>ed_Hours_Worked = Some 25, ed_Hourly_Rate = Some 20,
             ed_Tasks_Completed = Some []\<rparr>),
       (1, \<lparr>ed_Hours_Worked = Some 6, ed_Hourly_Rate = None,
             ed_Tasks_Completed = Some []\<rparr>)] ! 0) = Some 25 \<and>
   Daily_Total (recompute (recompute
      (init_timesheet \<lparr>year = 2025, month = 1, day = 1\<rparr>
         \<lparr>year = 2025, month = 1, day = 2\<rparr> ''Alex'')
      [(0::nat, \<lparr>ed_Hours_Worked = Some 8, ed_Hourly_Rate = Some 20,
             ed_Tasks_Completed = Some []\<rparr>),
       (1, \<lparr>ed_Hours_Worked = Some 6, ed_Hourly_Rate = Some 25,
             ed_Tasks_Completed = Some []\<rparr>)]) [(0::nat, \<lparr>ed_Hours_Worked = Some 25, ed_Hourly_Rate = Some 20,
             ed_Tasks_Completed = Some []\<rparr>),
       (1, \<lparr>ed_Hours_Worked = Some 6, ed_Hourly_Rate = None,
             ed_Tasks_Completed = Some []\<rparr>)] ! 0) = Some 500 \<and>
   recompute (recompute
      (init_timesheet \<lparr>year = 2025, month = 1, day = 1\<rparr>
         \<lparr>year = 2025, month = 1, day = 2\<rparr> ''Alex'')
      [(0::nat, \<lparr>ed_Hours_Worked = Some 8, ed_Hourly_Rate = Some 20,
             ed_Tasks_Completed = Some []\<rparr>),
       (1, \<lparr>ed_Hours_Worked = Some 6, ed_Hourly_Rate = Some 25,
             ed_Tasks_Completed = Some []\<rparr>)]) [(0::nat, \<lparr>ed_Hours_Worked = Some 25, ed_Hourly_Rate = Some 20,
             ed_Tasks_Completed = Some []\<rparr>),
       (1, \<lparr>ed_Hours_Worked = Some 6, ed_Hourly_Rate = None,
             ed_Tasks_Completed = Some []\<rparr>)] ! 1 = recompute (recompute
      (init_timesheet \<lparr>year = 2025, month = 1, day = 1\<rparr>
         \<lparr>year = 2025, month = 1, day = 2\<rparr> ''Alex'')
      [(0::nat, \<lparr>ed_Hours_Worked = Some 8, ed_Hourly_Rate = Some 20,
             ed_Tasks_Completed = Some []\<rparr>),
       (1, \<lparr>ed_Hours_Worked = Some 6, ed_Hourly_Rate = Some 25,
             ed_Tasks_Completed = Some []\<rparr>)]) [(0::nat, \<lparr>ed_Hours_Worked = Some 8, ed_Hourly_Rate = Some 20,
             ed_Tasks_Completed = Some []\<rparr>),
       (1, \<lparr>ed_Hours_Worked = Some 6, ed_Hourly_Rate = None,
             ed_Tasks_Completed = Some []\<rparr>)] ! 1"
proof -
  let ?df = "(recompute
      (init_timesheet \<lparr>year = 2025, month = 1, day = 1\<rparr>
         \<lparr>year = 2025, month = 1, day = 2\<rparr> ''Alex'')
      [(0::nat, \<lparr>ed_Hours_Worked = Some 8, ed_Hourly_Rate = Some 20,
             ed_Tasks_Completed = Some []\<rparr>),
       (1, \<lparr>ed_Hours_Worked = Some 6, ed_Hourly_Rate = Some 25,
             ed_Tasks_Completed = Some []\<rparr>)])"
  let ?bad = "[(0::nat, \<lparr>ed_Hours_Worked = Some 25, ed_Hourly_Rate = Some 20,
             ed_Tasks_Completed = Some []\<rparr>),
       (1, \<lparr>ed_Hours_Worked = Some 6, ed_Hourly_Rate = None,
             ed_Tasks_Completed = Some []\<rparr>)]"
  let ?good = "[(0::nat, \<lparr>ed_Hours_Worked = Some 8, ed_Hourly_Rate = Some 20,
             ed_Tasks_Completed = Some []\<rparr>),
       (1, \<lparr>ed_Hours_Worked = Some 6, ed_Hourly_Rate = None,
             ed_Tasks_Completed = Some []\<rparr>)]"
  have len: "length ?df = 2"
    by code_simp
  then have i0: "(0::nat) < length ?df" and i1: "(1::nat) < length ?df"
    by simp_all
  have e0: "map_of ?bad 0 = Some \<lparr>ed_Hours_Worked = Some 25, ed_Hourly_Rate = Some 20,
            ed_Tasks_Completed = Some []\<rparr>"
    by simp
  have e1: "map_of ?bad 1 = map_of ?good 1"
    by simp
  note T = recompute_takes_supplied_values [of ?df ?bad ?good]
  from T len have a: "length (recompute ?df ?bad) = 2"
    by simp
  from T i0 e0 have "Hours_Worked (recompute ?df ?bad ! 0) =
      ed_Hours_Worked \<lparr>ed_Hours_Worked = Some 25, ed_Hourly_Rate = Some 20,
            ed_Tasks_Completed = Some []\<rparr>"
    and "Daily_Total (recompute ?df ?bad ! 0) =
      cell_mul (ed_Hours_Worked \<lparr>ed_Hours_Worked = Some 25, ed_Hourly_Rate = Some 20,
            ed_Tasks_Completed = Some []\<rparr>) (ed_Hourly_Rate \<lparr>ed_Hours_Worked = Some 25,
            ed_Hourly_Rate = Some 20, ed_Tasks_Completed = Some []\<rparr>)"
    by blast+
  then have b: "Hours_Worked (recompute ?df ?bad ! 0) = Some 25"
    and c: "Daily_Total (recompute ?df ?bad ! 0) = Some 500"
    by (simp_all add: cell_mul_def)
  from T i1 e1 have d: "recompute ?df ?bad ! 1 = recompute ?df ?good ! 1"
    by blast
  from i0 i1 e0 e1 a b c d show ?thesis
    by (intro conjI)
qed

text \<open>
  The claim as the specification words it fails. The table holds 8 hours at a rate of
  20 and 6 hours at a rate of 25. The editor then supplies 25 hours for the first day,
  above the bound of 24, and no number for the rate of the second day. Neither cell
  keeps its prior value: the first day has 25 hours and a daily total of 500, the
  second day has no rate and no daily total.
\<close>

theorem rejected_cell_counterexample:
  "Hours_Worked ((recompute
      (init_timesheet \<lparr>year = 2025, month = 1, day = 1\<rparr>
         \<lparr>year = 2025, month = 1, day = 2\<rparr> ''Alex'')
      [(0::nat, \<lparr>ed_Hours_Worked = Some 8, ed_Hourly_Rate = Some 20,
             ed_Tasks_Completed = Some []\<rparr>),
       (1, \<lparr>ed_Hours_Worked = Some 6, ed_Hourly_Rate = Some 25,
             ed_Tasks_Completed = Some []\<rparr>)]) ! 0) = Some 8 \<and>
   Hourly_Rate ((recompute
      (init_timesheet \<lparr>year = 2025, month = 1, day = 1\<rparr>
         \<lparr>year = 2025, month = 1, day = 2\<rparr> ''Alex'')
      [(0::nat, \<lparr>ed_Hours_Worked = Some 8, ed_Hourly_Rate = Some 20,
             ed_Tasks_Completed = Some []\<rparr>),
       (1, \<lparr>ed_Hours_Worked = Some 6, ed_Hourly_Rate = Some 25,
             ed_Tasks_Completed = Some []\<rparr>)]) ! 1) = Some 25 \<and>
   Hours_Worked (recompute (recompute
      (init_timesheet \<lparr>year = 2025, month = 1, day = 1\<rparr>
         \<lparr>year = 2025, month = 1, day = 2\<rparr> ''Alex'')
      [(0::nat, \<lparr>ed_Hours_Worked = Some 8, ed_Hourly_Rate = Some 20,
             ed_Tasks_Completed = Some []\<rparr>),
       (1, \<lparr>ed_Hours_Worked = Some 6, ed_Hourly_Rate = Some 25,
             ed_Tasks_Completed = Some []\<rparr>)]) [(0::nat, \<lparr>ed_Hours_Worked = Some 25, ed_Hourly_Rate = Some 20,
             ed_Tasks_Completed = Some []\<rparr>),
       (1, \<lparr>ed_Hours_Worked = Some 6, ed_Hourly_Rate = None,
             ed_Tasks_Completed = Some []\<rparr>)] ! 0) = Some 25 \<and>
   Daily_Total (recompute (recompute
      (init_timesheet \<lparr>year = 2025, month = 1, day = 1\<rparr>
         \<lparr>year = 2025, month = 1, day = 2\<rparr> ''Alex'')
      [(0::nat, \<lparr>ed_Hours_Worked = Some 8, ed_Hourly_Rate = Some 20,
             ed_Tasks_Completed = Some []\<rparr>),
       (1, \<lparr>ed_Hours_Worked = Some 6, ed_Hourly_Rate = Some 25,
             ed_Tasks_Completed = Some []\<rparr>)]) [(0::nat, \<lparr>ed_Hours_Worked = Some 25, ed_Hourly_Rate = Some 20,
             ed_Tasks_Completed = Some []\<rparr>),
       (1, \<lparr>ed_Hours_Worked = Some 6, ed_Hourly_Rate = None,
             ed_Tasks_Completed = Some []\<rparr>)] ! 0) = Some 500 \<and>
   Hourly_Rate (recompute (recompute
      (init_timesheet \<lparr>year = 2025, month = 1, day = 1\<rparr>
         \<lparr>year = 2025, month = 1, day = 2\<rparr> ''Alex'')
      [(0::nat, \<lparr>ed_Hours_Worked = Some 8, ed_Hourly_Rate = Some 20,
             ed_Tasks_Completed = Some []\<rparr>),
       (1, \<lparr>ed_Hours_Worked = Some 6, ed_Hourly_Rate = Some 25,
             ed_Tasks_Completed = Some []\<rparr>)]) [(0::nat, \<lparr>ed_Hours_Worked = Some 25, ed_Hourly_Rate = Some 20,
             ed_Tasks_Completed = Some []\<rparr>),
       (1, \<lparr>ed_Hours_Worked = Some 6, ed_Hourly_Rate = None,
             ed_Tasks_Completed = Some []\<rparr>)] ! 1) = None \<and>
   Daily_Total (recompute (recompute
      (init_timesheet \<lparr>year = 2025, month = 1, day = 1\<rparr>
         \<lparr>year = 2025, month = 1, day = 2\<rparr> ''Alex'')
      [(0::nat, \<lparr>ed_Hours_Worked = Some 8, ed_Hourly_Rate = Some 20,
             ed_Tasks_Completed = Some []\<rparr>),
       (1, \<lparr>ed_Hours_Worked = Some 6, ed_Hourly_Rate = Some 25,
             ed_Tasks_Completed = Some []\<rparr>)]) [(0::nat, \<lparr>ed_Hours_Worked = Some 25, ed_Hourly_Rate = Some 20,
             ed_Tasks_Completed = Some []\<rparr>),
       (1, \<lparr>ed_Hours_Worked = Some 6, ed_Hourly_Rate = None,
             ed_Tasks_Completed = Some []\<rparr>)] ! 1) = None \<and>
   Hours_Worked (recompute (recompute
      (init_timesheet \<lparr>year = 2025, month = 1, day = 1\<rparr>
         \<lparr>year = 2025, month = 1, day = 2\<rparr> ''Alex'')
      [(0::nat, \<lparr>ed_Hours_Worked = Some 8, ed_Hourly_Rate = Some 20,
             ed_Tasks_Completed = Some []\<rparr>),
       (1, \<lparr>ed_Hours_Worked = Some 6, ed_Hourly_Rate = Some 25,
             ed_Tasks_Completed = Some []\<rparr>)]) [(0::nat, \<lparr>ed_Hours_Worked = Some 25, ed_Hourly_Rate = Some 20,
             ed_Tasks_Completed = Some []\<rparr>),
       (1, \<lparr>ed_Hours_Worked = Some 6, ed_Hourly_Rate = None,
             ed_Tasks_Completed = Some []\<rparr>)] ! 0) \<noteq> Hours_Worked ((recompute
      (init_timesheet \<lparr>year = 2025, month = 1, day = 1\<rparr>
         \<lparr>year = 2025, month = 1, day = 2\<rparr> ''Alex'')
      [(0::nat, \<lparr>ed_Hours_Worked = Some 8, ed_Hourly_Rate = Some 20,
             ed_Tasks_Completed = Some []\<rparr>),
       (1, \<lparr>ed_Hours_Worked = Some 6, ed_Hourly_Rate = Some 25,
             ed_Tasks_Completed = Some []\<rparr>)]) ! 0) \<and>
   Hourly_Rate (recompute (recompute
      (init_timesheet \<lparr>year = 2025, month = 1, day = 1\<rparr>
         \<lparr>year = 2025, month = 1, day = 2\<rparr> ''Alex'')
      [(0::nat, \<lparr>ed_Hours_Worked = Some 8, ed_Hourly_Rate = Some 20,
             ed_Tasks_Completed = Some []\<rparr>),
       (1, \<lparr>ed_Hours_Worked = Some 6, ed_Hourly_Rate = Some 25,
             ed_Tasks_Completed = Some []\<rparr>)]) [(0::nat, \<lparr>ed_Hours_Worked = Some 25, ed_Hourly_Rate = Some 20,
             ed_Tasks_Completed = Some []\<rparr>),
       (1, \<lparr>ed_Hours_Worked = Some 6, ed_Hourly_Rate = None,
             ed_Tasks_Completed = Some []\<rparr>)] ! 1) \<noteq> Hourly_Rate ((recompute
      (init_timesheet \<lparr>year = 2025, month = 1, day = 1\<rparr>
         \<lparr>year = 2025, month = 1, day = 2\<rparr> ''Alex'')
      [(0::nat, \<lparr>ed_Hours_Worked = Some 8, ed_Hourly_Rate = Some 20,
             ed_Tasks_Completed = Some []\<rparr>),
       (1, \<lparr>ed_Hours_Worked = Some 6, ed_Hourly_Rate = Some 25,
             ed_Tasks_Completed = Some []\<rparr>)]) ! 1)"
  by code_simp

section \<open>Weeks of different years\<close>

lemma nth_init_timesheet:
  assumes "i < length (init_timesheet start_date end_date employee_name)"
  shows "init_timesheet start_date end_date employee_name ! i =
    \<lparr>Date = toordinal start_date + int i, Day = day_name (toordinal start_date + int i),
     Hours_Worked = Some 0, Hourly_Rate = Some 0, Daily_Total = Some 0,
     Tasks_Completed = Some [], Week = iso_week (toordinal start_date + int i),
     Month = month_name (toordinal start_date + int i), Employee_Name = employee_name\<rparr>"
  using assms by (simp add: init_timesheet_def date_range_def)

lemma recompute_keeps_date_week:
  assumes "i < length df"
  shows "Date (recompute df edited ! i) = Date (df ! i)"
    and "Week (recompute df edited ! i) = Week (df ! i)"
  using assms by (simp_all add: nth_recompute nth_assign_edits Let_def split: option.split)

lemma week_of_built_row:
  assumes "r \<in> set (recompute (init_timesheet start_date end_date employee_name) edited)"
  shows "Week r = iso_week (Date r)"
proof -
  let ?b = "init_timesheet start_date end_date employee_name"
  from assms obtain i where i: "i < length ?b" and r: "r = recompute ?b edited ! i"
    by (auto simp: in_set_conv_nth length_recompute)
  from i show ?thesis
    by (simp add: r recompute_keeps_date_week nth_init_timesheet)
qed

text \<open>
  Claim C10. The Week column of a built timesheet is the ISO week number of the date,
  without the ISO year, and the editor cannot change it. The weekly summary has one
  entry for each week number, in ascending order, and the entry sums every row with
  that number: two rows whose dates have the same ISO week number are summed in the
  same entry, whatever the years of their dates. In the timesheet from 2024-12-30 to
  2025-12-31 the first row (a day of 2024, in week 1 of the ISO year 2025) and the row
  of 2025-12-29 (week 1 of the ISO year 2026) are both summed in the entry of week 1.
\<close>

theorem weekly_summary_ignores_year:
  assumes "df = recompute (init_timesheet start_date end_date employee_name) edited"
  shows
    "(\<forall>r \<in> set df. Week r = iso_week (Date r)) \<and>
     sorted_wrt (<) (map fst (weekly_summary df)) \<and>
     (\<forall>i < length df. \<forall>j < length df.
        iso_week (Date (df ! i)) = iso_week (Date (df ! j)) \<longrightarrow>
          df ! i \<in> set (filter (\<lambda>q. Week q = Week (df ! i)) df) \<and>
          df ! j \<in> set (filter (\<lambda>q. Week q = Week (df ! i)) df) \<and>
          (Week (df ! i),
           round2 (col_sum (map Hours_Worked (filter (\<lambda>q. Week q = Week (df ! i)) df))),
           round2 (col_sum (map Daily_Total (filter (\<lambda>q. Week q = Week (df ! i)) df))))
            \<in> set (weekly_summary df))"
proof (intro conjI ballI allI impI)
  fix r assume "r \<in> set df"
  then show "Week r = iso_week (Date r)"
    unfolding assms by (rule week_of_built_row)
next
  show "sorted_wrt (<) (map fst (weekly_summary df))"
    by (simp only: weekly_summary_def keys_round_summary groupby_keys_sorted)
next
  fix i j
  assume i: "i < length df" and j: "j < length df"
    and same: "iso_week (Date (df ! i)) = iso_week (Date (df ! j))"
  from i j have mem: "df ! i \<in> set df" "df ! j \<in> set df"
    by simp_all
  then have "Week (df ! i) = iso_week (Date (df ! i))" "Week (df ! j) = iso_week (Date (df ! j))"
    unfolding assms by (simp_all only: week_of_built_row)
  with same have eq: "Week (df ! j) = Week (df ! i)"
    by simp
  from mem show "df ! i \<in> set (filter (\<lambda>q. Week q = Week (df ! i)) df)"
    by simp
  from mem eq show "df ! j \<in> set (filter (\<lambda>q. Week q = Week (df ! i)) df)"
    by simp
  from mem have "Week (df ! i) \<in> Week ` set df"
    by simp
  then show "(Week (df ! i),
           round2 (col_sum (map Hours_Worked (filter (\<lambda>q. Week q = Week (df ! i)) df))),
           round2 (col_sum (map Daily_Total (filter (\<lambda>q. Week q = Week (df ! i)) df))))
            \<in> set (weekly_summary df)"
    unfolding weekly_summary_def by (rule summary_entry)
qed

theorem weekly_summary_ignores_year_witness:
  "let df = recompute
          (init_timesheet \<lparr>year = 2024, month = 12, day = 30\<rparr>
             \<lparr>year = 2025, month = 12, day = 31\<rparr> ''Alex'')
          (map (\<lambda>i. (i, if i = 0 \<or> i = 364
                         then \<lparr>ed_Hours_Worked = Some 8, ed_Hourly_Rate = Some 20,
                                ed_Tasks_Completed = Some ''stocktaking''\<rparr>
                         else \<lparr>ed_Hours_Worked = Some 0, ed_Hourly_Rate = Some 0,
                                ed_Tasks_Completed = Some []\<rparr>))
               [0..<367])
   in length df = 367 \<and>
      fst (ord2ymd (Date (df ! 0))) = 2024 \<and>
      fst (ord2ymd (Date (df ! 364))) = 2025 \<and>
      isocalendar (Date (df ! 0)) = (2025, 1) \<and>
      isocalendar (Date (df ! 364)) = (2026, 1) \<and>
      iso_week (Date (df ! 0)) = iso_week (Date (df ! 364)) \<and>
      df ! 0 \<in> set (filter (\<lambda>q. Week q = 1) df) \<and>
      df ! 364 \<in> set (filter (\<lambda>q. Week q = 1) df) \<and>
      (1, round2 (col_sum (map Hours_Worked (filter (\<lambda>q. Week q = 1) df))),
          round2 (col_sum (map Daily_Total (filter (\<lambda>q. Week q = 1) df))))
        \<in> set (weekly_summary df)"
proof -
  let ?s = "\<lparr>year = 2024, month = 12, day = 30\<rparr>"
  let ?e = "\<lparr>year = 2025, month = 12, day = 31\<rparr>"
  define df where "df = recompute
          (init_timesheet \<lparr>year = 2024, month = 12, day = 30\<rparr>
             \<lparr>year = 2025, month = 12, day = 31\<rparr> ''Alex'')
          (map (\<lambda>i. (i, if i = 0 \<or> i = 364
                         then \<lparr>ed_Hours_Worked = Some 8, ed_Hourly_Rate = Some 20,
                                ed_Tasks_Completed = Some ''stocktaking''\<rparr>
                         else \<lparr>ed_Hours_Worked = Some 0, ed_Hourly_Rate = Some 0,
                                ed_Tasks_Completed = Some []\<rparr>))
               [0..<367])"
  have os: "toordinal ?s = 739250" and oe: "toordinal ?e = 739616"
    by (simp_all add: toordinal_def ymd2ord_def days_before_year_def days_before_month_def
        DAYS_BEFORE_MONTH_def is_leap_def)
  have len: "length df = 367"
    by (simp add: df_def length_recompute length_init_timesheet os oe)
  then have i: "0 < length df" and j: "364 < length df"
    by simp_all
  have d0: "Date (df ! 0) = 739250" and d364: "Date (df ! 364) = 739614"
    by (simp_all add: df_def recompute_keeps_date_week length_init_timesheet
        nth_init_timesheet os oe)
  have c0: "isocalendar 739250 = (2025, 1)" and c364: "isocalendar 739614 = (2026, 1)"
    by code_simp+
  have y0: "fst (ord2ymd 739250) = 2024" and y364: "fst (ord2ymd 739614) = 2025"
    by code_simp+
  from c0 c364 have same: "iso_week (Date (df ! 0)) = iso_week (Date (df ! 364))"
    by (simp add: d0 d364 iso_week_def)
  note T = weekly_summary_ignores_year [OF df_def]
  from T i have "Week (df ! 0) = iso_week (Date (df ! 0))"
    by simp
  then have w: "Week (df ! 0) = 1"
    by (simp add: d0 iso_week_def c0)
  from T i j same
  have "df ! 0 \<in> set (filter (\<lambda>q. Week q = Week (df ! 0)) df) \<and>
        df ! 364 \<in> set (filter (\<lambda>q. Week q = Week (df ! 0)) df) \<and>
        (Week (df ! 0),
         round2 (col_sum (map Hours_Worked (filter (\<lambda>q. Week q = Week (df ! 0)) df))),
         round2 (col_sum (map Daily_Total (filter (\<lambda>q. Week q = Week (df ! 0)) df))))
          \<in> set (weekly_summary df)"
    by blast
  then have "df ! 0 \<in> set (filter (\<lambda>q. Week q = 1) df) \<and>
        df ! 364 \<in> set (filter (\<lambda>q. Week q = 1) df) \<and>
        (1, round2 (col_sum (map Hours_Worked (filter (\<lambda>q. Week q = 1) df))),
         round2 (col_sum (map Daily_Total (filter (\<lambda>q. Week q = 1) df))))
          \<in> set (weekly_summary df)"
    by (simp only: w)
  with len same have "length df = 367 \<and>
      fst (ord2ymd (Date (df ! 0))) = 2024 \<and>
      fst (ord2ymd (Date (df ! 364))) = 2025 \<and>
      isocalendar (Date (df ! 0)) = (2025, 1) \<and>
      isocalendar (Date (df ! 364)) = (2026, 1) \<and>
      iso_week (Date (df ! 0)) = iso_week (Date (df ! 364)) \<and>
      df ! 0 \<in> set (filter (\<lambda>q. Week q = 1) df) \<and>
      df ! 364 \<in> set (filter (\<lambda>q. Week q = 1) df) \<and>
      (1, round2 (col_sum (map Hours_Worked (filter (\<lambda>q. Week q = 1) df))),
          round2 (col_sum (map Daily_Total (filter (\<lambda>q. Week q = 1) df))))
        \<in> set (weekly_summary df)"
    by (simp only: d0 d364 c0 c364 y0 y364)
  then show ?thesis
    unfolding Let_def df_def .
qed

section \<open>Reading the CSV export back\<close>











end
